theory Spec2Isabelle
  imports Main
begin

section \<open>Python strings\<close>

text \<open>
  A Python \<open>str\<close> is modelled as a \<^typ>\<open>string\<close>: a list of 8-bit characters, read as
  the code points 0 to 255. The helpers below follow the built-in methods the
  repository calls (\<open>strip\<close>, \<open>lower\<close>, \<open>split\<close>, \<open>join\<close>, \<open>in\<close>, \<open>count\<close>, \<open>startswith\<close>).
\<close>

text \<open>\<open>str.isspace\<close> on one character: the code points Python classifies as whitespace.\<close>

definition py_isspace :: "char \<Rightarrow> bool" where
  "py_isspace c = (of_char c \<in> {9, 10, 11, 12, 13, 28, 29, 30, 31, 32, 133, 160 :: nat})"

definition py_lstrip :: "string \<Rightarrow> string" where
  "py_lstrip s = dropWhile py_isspace s"

definition py_rstrip :: "string \<Rightarrow> string" where
  "py_rstrip s = rev (dropWhile py_isspace (rev s))"

definition py_strip :: "string \<Rightarrow> string" where
  "py_strip s = py_rstrip (py_lstrip s)"

text \<open>\<open>str.lower\<close> on the code points 0 to 255: A-Z and the accented capitals have a lower-case form.\<close>

definition py_lower_char :: "char \<Rightarrow> char" where
  "py_lower_char c =
     (let n = (of_char c :: nat) in
      if (65 \<le> n \<and> n \<le> 90) \<or> (192 \<le> n \<and> n \<le> 222 \<and> n \<noteq> 215) then char_of (n + 32) else c)"

definition py_lower :: "string \<Rightarrow> string" where
  "py_lower s = map py_lower_char s"

text \<open>\<open>s.startswith(p)\<close>\<close>

fun startswith :: "string \<Rightarrow> string \<Rightarrow> bool" where
  "startswith s [] = True"
| "startswith [] (p # ps) = False"
| "startswith (x # xs) (p # ps) = (x = p \<and> startswith xs ps)"

text \<open>\<open>p in s\<close>\<close>

fun py_in :: "string \<Rightarrow> string \<Rightarrow> bool" where
  "py_in p [] = (p = [])"
| "py_in p (x # xs) = (startswith (x # xs) p \<or> py_in p xs)"

text \<open>
  \<open>s.count(sub)\<close> for a non-empty \<open>sub\<close>: occurrences are counted from the left and do
  not overlap; \<open>k\<close> is the number of characters still covered by the last occurrence.
\<close>

fun count_from :: "nat \<Rightarrow> string \<Rightarrow> string \<Rightarrow> nat" where
  "count_from k [] sub = 0"
| "count_from k (x # xs) sub =
     (if k = 0 \<and> startswith (x # xs) sub then Suc (count_from (length sub - 1) xs sub)
      else count_from (k - 1) xs sub)"

definition py_count :: "string \<Rightarrow> string \<Rightarrow> nat" where
  "py_count s sub = count_from 0 s sub"

text \<open>\<open>s.split(sep)\<close> for a one-character separator: never the empty list.\<close>

fun py_split :: "char \<Rightarrow> string \<Rightarrow> string list" where
  "py_split sep [] = [[]]"
| "py_split sep (x # xs) =
     (if x = sep then [] # py_split sep xs
      else (case py_split sep xs of [] \<Rightarrow> [[x]] | l # ls \<Rightarrow> (x # l) # ls))"

text \<open>\<open>sep.join(parts)\<close>\<close>

fun py_join :: "string \<Rightarrow> string list \<Rightarrow> string" where
  "py_join sep [] = []"
| "py_join sep [x] = x"
| "py_join sep (x # y # ys) = x @ sep @ py_join sep (y # ys)"

text \<open>\<open>str(n)\<close> for an integer, as the f-strings print status codes and indices.\<close>

definition digit_char :: "nat \<Rightarrow> char" where
  "digit_char d = char_of (48 + d)"

function str_nat :: "nat \<Rightarrow> string" where
  "str_nat n = (if n < 10 then [digit_char n] else str_nat (n div 10) @ [digit_char (n mod 10)])"
  by pat_completeness auto
termination
  by (relation "measure id") auto

declare str_nat.simps [simp del]

definition str_int :: "int \<Rightarrow> string" where
  "str_int i = (if i < 0 then CHR ''-'' # str_nat (nat (- i)) else str_nat (nat i))"

section \<open>Regular expressions of the \<open>re\<close> module\<close>

text \<open>
  The patterns of the repository use literals, character classes, \<open>\s\<close>, \<open>.\<close>,
  alternation and repetition only, so whether \<open>re.match\<close> succeeds is a question about a
  regular language (greedy and lazy repetition accept the same strings). It is decided
  with derivatives.
\<close>

datatype cset =
    Ch char            \<comment> \<open>a literal\<close>
  | ChI char           \<comment> \<open>a literal under \<open>re.IGNORECASE\<close>\<close>
  | OneOf string       \<comment> \<open>\<open>[...]\<close>\<close>
  | WSpace             \<comment> \<open>\<open>\s\<close>\<close>
  | Dot                \<comment> \<open>\<open>.\<close>: anything but a newline\<close>

fun cs_mem :: "cset \<Rightarrow> char \<Rightarrow> bool" where
  "cs_mem (Ch a) c = (c = a)"
| "cs_mem (ChI a) c = (py_lower_char c = py_lower_char a)"
| "cs_mem (OneOf s) c = (c \<in> set s)"
| "cs_mem WSpace c = py_isspace c"
| "cs_mem Dot c = (c \<noteq> CHR 0x0A)"

datatype rx = Zero | One | Atom cset | Alt rx rx | Seq rx rx | Star rx

fun nullable :: "rx \<Rightarrow> bool" where
  "nullable Zero = False"
| "nullable One = True"
| "nullable (Atom a) = False"
| "nullable (Alt r s) = (nullable r \<or> nullable s)"
| "nullable (Seq r s) = (nullable r \<and> nullable s)"
| "nullable (Star r) = True"

fun deriv :: "char \<Rightarrow> rx \<Rightarrow> rx" where
  "deriv c Zero = Zero"
| "deriv c One = Zero"
| "deriv c (Atom a) = (if cs_mem a c then One else Zero)"
| "deriv c (Alt r s) = Alt (deriv c r) (deriv c s)"
| "deriv c (Seq r s) =
     (if nullable r then Alt (Seq (deriv c r) s) (deriv c s) else Seq (deriv c r) s)"
| "deriv c (Star r) = Seq (deriv c r) (Star r)"

text \<open>The whole string is in the language.\<close>

fun rx_full :: "rx \<Rightarrow> string \<Rightarrow> bool" where
  "rx_full r [] = nullable r"
| "rx_full r (c # cs) = rx_full (deriv c r) cs"

text \<open>Some prefix of the string is in the language.\<close>

fun rx_prefix :: "rx \<Rightarrow> string \<Rightarrow> bool" where
  "rx_prefix r [] = nullable r"
| "rx_prefix r (c # cs) = (nullable r \<or> rx_prefix (deriv c r) cs)"

text \<open>\<open>re.match(p, s)\<close> for a pattern without \<open>$\<close>: a match that starts at position 0.\<close>

definition re_match :: "rx \<Rightarrow> string \<Rightarrow> bool" where
  "re_match r s = rx_prefix r s"

text \<open>
  \<open>re.match(p, s)\<close> for a pattern \<open>p$\<close>: the match ends at the end of the string or just
  before a newline that is its last character.
\<close>

definition re_match_eol :: "rx \<Rightarrow> string \<Rightarrow> bool" where
  "re_match_eol r s = (rx_full r s \<or> (s \<noteq> [] \<and> last s = CHR 0x0A \<and> rx_full r (butlast s)))"

text \<open>Pattern combinators.\<close>

definition lit :: "string \<Rightarrow> rx" where
  "lit s = foldr (\<lambda>c r. Seq (Atom (Ch c)) r) s One"

definition lit_i :: "string \<Rightarrow> rx" where
  "lit_i s = foldr (\<lambda>c r. Seq (Atom (ChI c)) r) s One"

definition alts :: "rx list \<Rightarrow> rx" where
  "alts rs = foldr Alt rs Zero"

definition plus :: "rx \<Rightarrow> rx" where
  "plus r = Seq r (Star r)"

fun rep :: "nat \<Rightarrow> rx \<Rightarrow> rx" where
  "rep 0 r = One"
| "rep (Suc n) r = Seq r (rep n r)"

text \<open>\<open>r{m,}\<close> and \<open>r{m,n}\<close>\<close>

definition at_least :: "nat \<Rightarrow> rx \<Rightarrow> rx" where
  "at_least m r = Seq (rep m r) (Star r)"

fun up_to :: "nat \<Rightarrow> rx \<Rightarrow> rx" where
  "up_to 0 r = One"
| "up_to (Suc n) r = Alt One (Seq r (up_to n r))"

definition between :: "nat \<Rightarrow> nat \<Rightarrow> rx \<Rightarrow> rx" where
  "between m n r = Seq (rep m r) (up_to (n - m) r)"

abbreviation ws0 :: rx where
  "ws0 \<equiv> Star (Atom WSpace)"

section \<open>ScrapeResult and the scraping manager (services/scraping\_manager.py)\<close>

text \<open>
  Every strategy returns a dict with the keys \<open>success\<close>, \<open>markdown\<close>, \<open>error\<close> and,
  in most places, \<open>filename\<close>. \<open>error\<close> is \<open>None\<close> or a string; a \<open>filename\<close> of
  \<open>None\<close> models a dict that has no such key.
\<close>

record scrape_result =
  success :: bool
  markdown :: string
  error :: "string option"
  filename :: "string option"

datatype variant = BS4 | Crawl4AI | Playwright | Firecrawl

text \<open>
  A service object is used only through \<open>scrape_url(url, log_callback)\<close>. \<open>Inl\<close> is an
  exception that leaves the call, \<open>Inr\<close> the returned dict.
\<close>

type_synonym service = "string \<Rightarrow> string + scrape_result"

text \<open>
  \<open>ScrapingManager.__init__\<close>: the BS4 and Firecrawl services always exist; the Crawl4AI
  and Playwright services are \<open>None\<close> when importing their module failed.
\<close>

record scraping_manager =
  bs4_service :: service
  firecrawl_service :: service
  crawl4ai_service :: "service option"
  playwright_service :: "service option"

text \<open>
  What the manager does besides returning: the lines it hands to \<open>log_callback\<close>
  (one constructor per message template) and the calls it makes to a service.
\<close>

datatype event =
    LogProcessing string
  | LogTrying variant
  | LogFailed variant "string option"
  | Invoke variant string


text \<open>
  One optional stage of \<open>_scrape_auto\<close> (stage 2 or 3): skipped when the service is
  \<open>None\<close>; otherwise called, and the chain ends (\<open>Some\<close>) when it succeeded or raised.
\<close>

definition auto_stage ::
  "variant \<Rightarrow> service option \<Rightarrow> string \<Rightarrow> event list \<times> (string + scrape_result) option" where
  "auto_stage v svc url =
     (case svc of
        None \<Rightarrow> ([], None)
      | Some f \<Rightarrow>
          (case f url of
             Inl e \<Rightarrow> ([LogTrying v, Invoke v url], Some (Inl e))
           | Inr res \<Rightarrow>
               if success res then ([LogTrying v, Invoke v url], Some (Inr res))
               else ([LogTrying v, Invoke v url, LogFailed v (error res)], None)))"

definition scrape_auto :: "scraping_manager \<Rightarrow> string \<Rightarrow> event list \<times> (string + scrape_result)" where
  "scrape_auto m url =
     (case auto_stage BS4 (Some (bs4_service m)) url of
        (t1, Some out) \<Rightarrow> (t1, out)
      | (t1, None) \<Rightarrow>
     (case auto_stage Crawl4AI (crawl4ai_service m) url of
        (t2, Some out) \<Rightarrow> (t1 @ t2, out)
      | (t2, None) \<Rightarrow>
     (case auto_stage Playwright (playwright_service m) url of
        (t3, Some out) \<Rightarrow> (t1 @ t2 @ t3, out)
      | (t3, None) \<Rightarrow>
          (t1 @ t2 @ t3 @ [LogTrying Firecrawl, Invoke Firecrawl url], firecrawl_service m url))))"

definition failure :: "string \<Rightarrow> scrape_result" where
  "failure msg = \<lparr>success = False, markdown = '''', error = Some msg, filename = Some ''''\<rparr>"

definition scrape_url ::
  "scraping_manager \<Rightarrow> string \<Rightarrow> string \<Rightarrow> event list \<times> (string + scrape_result)" where
  "scrape_url m url method =
     (let method_key = py_strip method; t0 = [LogProcessing method_key] in
      if method_key = ''BS4'' then (t0 @ [Invoke BS4 url], bs4_service m url)
      else if method_key = ''Crawl4AI'' then
        (case crawl4ai_service m of
           Some f \<Rightarrow> (t0 @ [Invoke Crawl4AI url], f url)
         | None \<Rightarrow> (t0, Inr (failure ''Crawl4AI service not available'')))
      else if method_key = ''Playwright'' then
        (case playwright_service m of
           Some f \<Rightarrow> (t0 @ [Invoke Playwright url], f url)
         | None \<Rightarrow> (t0, Inr (failure ''Playwright service not available'')))
      else if method_key = ''Firecrawl'' then (t0 @ [Invoke Firecrawl url], firecrawl_service m url)
      else if method_key = ''Auto'' then
        (case scrape_auto m url of (t, out) \<Rightarrow> (t0 @ t, out))
      else (t0, Inr (failure (''Unknown method: '' @ method))))"

section \<open>The fallback chain as the specification words it\<close>



section \<open>ContentFilter (services/content\_filter.py)\<close>

text \<open>
  The filter works on the tree BeautifulSoup's \<open>html.parser\<close> builds. An element has a
  (lower-case) name, the list that \<open>element.get("class", [])\<close> yields (\<open>[]\<close> without a
  class attribute; the parser always gives a list), its other attributes, which are
  strings, and its children.

  A string of the tree has a class, which the parser chooses by the element the string
  stands in: \<open>NavigableString\<close> (and \<open>CData\<close>) in general, \<open>TemplateString\<close> inside
  \<open>template\<close>, \<open>RubyTextString\<close> inside \<open>rt\<close>, \<open>RubyParenthesisString\<close> inside \<open>rp\<close>,
  \<open>Script\<close> inside \<open>script\<close>, \<open>Stylesheet\<close> inside \<open>style\<close>; comments, doctypes and
  the like are strings of classes no element asks for.
\<close>

datatype strkind =
    PlainText
  | TemplateText
  | RubyText
  | RubyParen
  | ScriptText
  | StyleText
  | OtherText

datatype node =
    Text strkind string
  | Elem string "string list" "(string \<times> string) list" "node list"

definition REMOVE_TAGS :: "string list" where
  "REMOVE_TAGS =
     [''script'', ''style'', ''noscript'', ''iframe'', ''svg'', ''canvas'',
      ''header'', ''footer'', ''nav'', ''aside'', ''menu'', ''menuitem'',
      ''form'', ''input'', ''button'', ''select'', ''textarea'']"

definition NOISE_PATTERNS :: "string list" where
  "NOISE_PATTERNS =
     [''header'', ''navbar'', ''nav-'', ''navigation'', ''top-bar'', ''topbar'',
      ''menu'', ''mega-menu'', ''dropdown'', ''hamburger'',
      ''footer'', ''foot-'', ''bottom-bar'', ''bottombar'', ''copyright'',
      ''related'', ''recommend'', ''similar'', ''also-bought'', ''also-viewed'',
      ''you-may-like'', ''customers-also'', ''frequently-bought'',
      ''carousel'', ''slider'', ''swiper'', ''slick'',
      ''review'', ''rating'', ''comment'', ''feedback'', ''testimonial'',
      ''star-rating'', ''user-review'', ''customer-review'',
      ''social'', ''share'', ''facebook'', ''twitter'', ''instagram'', ''pinterest'',
      ''whatsapp'', ''telegram'', ''linkedin'',
      ''banner'', ''promo'', ''popup'', ''modal'', ''overlay'', ''ad-'',
      ''advertisement'', ''sponsored'', ''newsletter'', ''subscribe'',
      ''breadcrumb'', ''pagination'', ''pager'', ''sidebar'', ''widget'',
      ''cookie'', ''gdpr'', ''consent'', ''chat'', ''support-chat'',
      ''recently-viewed'', ''wishlist'', ''compare'']"

definition PRODUCT_PATTERNS :: "string list" where
  "PRODUCT_PATTERNS =
     [''product-title'', ''product-name'', ''product-info'',
      ''product-description'', ''product-detail'', ''product-spec'',
      ''specification'', ''spec-table'', ''tech-spec'', ''features'',
      ''description'', ''overview'', ''about-product'', ''highlights'',
      ''key-features'', ''bullet'', ''attribute'', ''property'',
      ''price'', ''offer'', ''discount'', ''sku'', ''model'',
      ''dimensions'', ''weight'', ''capacity'', ''warranty'',
      ''pdp-'', ''detail-page'', ''main-content'', ''product-content'',
      ''title'', ''titleblock'', ''dp-'', ''detail'', ''feature'',
      ''a-section'', ''a-row'', ''a-box'', ''atc-'',
      ''availability'', ''buybox'', ''cart'',
      ''item-'', ''sku-'', ''prod-'', ''specs'', ''info'']"

text \<open>
  \<open>_matches_pattern\<close>: every pattern of the two lists is a plain literal (letters and
  hyphens), so \<open>re.search(pattern, text_lower)\<close> succeeds exactly when the pattern
  occurs in the lower-cased text.
\<close>

definition matches_pattern :: "string \<Rightarrow> string list \<Rightarrow> bool" where
  "matches_pattern text patterns =
     (if text = [] then False else list_ex (\<lambda>p. py_in p (py_lower text)) patterns)"

text \<open>\<open>element.get("id", "")\<close>\<close>

definition get_id :: "(string \<times> string) list \<Rightarrow> string" where
  "get_id attrs = (case map_of attrs ''id'' of Some v \<Rightarrow> v | None \<Rightarrow> '''')"

fun is_noise_element :: "node \<Rightarrow> bool" where
  "is_noise_element (Elem name classes attrs kids) =
     (if name \<in> set [''h1'', ''h2'', ''h3'', ''main'', ''article''] then False
      else
        let class_str = py_join '' '' classes in
        if matches_pattern class_str NOISE_PATTERNS \<and> \<not> matches_pattern class_str PRODUCT_PATTERNS
        then True
        else
          let elem_id = get_id attrs in
          if matches_pattern elem_id NOISE_PATTERNS \<and> \<not> matches_pattern elem_id PRODUCT_PATTERNS
          then True
          else list_ex (\<lambda>(attr, val). startswith attr ''data-'' \<and> matches_pattern val NOISE_PATTERNS) attrs)"
| "is_noise_element _ = False"

fun is_product_element :: "node \<Rightarrow> bool" where
  "is_product_element (Elem name classes attrs kids) =
     (matches_pattern (py_join '' '' classes) PRODUCT_PATTERNS
      \<or> matches_pattern (get_id attrs) PRODUCT_PATTERNS)"
| "is_product_element _ = False"

text \<open>
  \<open>interesting_string_types\<close> of an element: the one class of strings its \<open>get_text\<close>
  collects. An element other than the five string containers collects the plain
  strings only, so the text inside a \<open>template\<close>, \<open>rt\<close> or \<open>rp\<close> below it does not
  count for it.
\<close>

definition interesting :: "string \<Rightarrow> strkind" where
  "interesting name =
     (if name = ''template'' then TemplateText
      else if name = ''rt'' then RubyText
      else if name = ''rp'' then RubyParen
      else if name = ''script'' then ScriptText
      else if name = ''style'' then StyleText
      else PlainText)"

text \<open>The strings of one class below a node, in document order.\<close>

fun all_strings :: "strkind \<Rightarrow> node \<Rightarrow> string list" where
  "all_strings k (Text k' s) = (if k' = k then [s] else [])"
| "all_strings k (Elem name classes attrs kids) = concat (map (all_strings k) kids)"

fun tag_name :: "node \<Rightarrow> string" where
  "tag_name (Elem name classes attrs kids) = name"
| "tag_name _ = []"

text \<open>\<open>get_text()\<close> and \<open>get_text(strip=True)\<close>: the latter strips each string and drops the empty ones.\<close>

definition get_text :: "node \<Rightarrow> string" where
  "get_text e = concat (all_strings (interesting (tag_name e)) e)"

definition get_text_strip :: "node \<Rightarrow> string" where
  "get_text_strip e =
     concat (filter (\<lambda>s. s \<noteq> []) (map py_strip (all_strings (interesting (tag_name e)) e)))"

text \<open>The elements of a subtree in document order, the root included.\<close>

fun elems :: "node \<Rightarrow> node list" where
  "elems (Elem name classes attrs kids) = Elem name classes attrs kids # concat (map elems kids)"
| "elems _ = []"

text \<open>\<open>find_all(True)\<close>: on an element its descendants, on the soup every element.\<close>

fun descendants :: "node \<Rightarrow> node list" where
  "descendants (Elem name classes attrs kids) = concat (map elems kids)"
| "descendants _ = []"

definition find_all :: "node list \<Rightarrow> node list" where
  "find_all soup = concat (map elems soup)"

fun is_tag :: "node \<Rightarrow> bool" where
  "is_tag (Elem name classes attrs kids) = True"
| "is_tag _ = False"

text \<open>
  \<open>decompose()\<close> on every element that satisfies \<open>doomed\<close>: the element goes with all
  below it. \<open>doomed\<close> is asked of the elements as they were before anything was removed.
\<close>

fun decompose_all :: "(node \<Rightarrow> bool) \<Rightarrow> node \<Rightarrow> node"
  and decompose_in :: "(node \<Rightarrow> bool) \<Rightarrow> node list \<Rightarrow> node list" where
  "decompose_all doomed (Elem name classes attrs kids) = Elem name classes attrs (decompose_in doomed kids)"
| "decompose_all doomed (Text k s) = Text k s"
| "decompose_in doomed [] = []"
| "decompose_in doomed (n # ns) =
     (if is_tag n \<and> doomed n then decompose_in doomed ns
      else decompose_all doomed n # decompose_in doomed ns)"

text \<open>Step 1: the tags that are always removed.\<close>

definition unwanted_tag :: "node \<Rightarrow> bool" where
  "unwanted_tag e = (tag_name e \<in> set REMOVE_TAGS)"

text \<open>
  Step 2, the test that puts an element on \<open>elements_to_remove\<close>: it is noise, its text
  is at most 100 characters long, it is no product element and none is below it.
\<close>

definition noise_to_remove :: "node \<Rightarrow> bool" where
  "noise_to_remove e =
     (if is_noise_element e then
        (if length (get_text_strip e) > 100 then False
         else if \<not> is_product_element e then
           (let has_product_child = list_ex is_product_element (descendants e)
            in \<not> has_product_child)
         else False)
      else False)"

text \<open>Step 3: no text, and no image or table below.\<close>

definition empty_element :: "node \<Rightarrow> bool" where
  "empty_element e =
     (get_text_strip e = [] \<and> filter (\<lambda>d. tag_name d \<in> set [''img'', ''table'']) (descendants e) = [])"

text \<open>\<open>max(xs, key=...)\<close> of a non-empty list: the first element with the largest key.\<close>

fun max_by :: "('a \<Rightarrow> nat) \<Rightarrow> 'a \<Rightarrow> 'a list \<Rightarrow> 'a" where
  "max_by key best [] = best"
| "max_by key best (x # xs) = (if key x > key best then max_by key x xs else max_by key best xs)"

text \<open>The tree after steps 1 to 3.\<close>

definition filter_soup :: "node list \<Rightarrow> node list" where
  "filter_soup soup =
     decompose_in empty_element (decompose_in noise_to_remove (decompose_in unwanted_tag soup))"

text \<open>
  Step 4 chooses what is returned: the product container with the longest text, else
  the first \<open>body\<close> element, else the whole soup.
\<close>

definition select_container :: "node list \<Rightarrow> node list" where
  "select_container soup =
     (case filter is_product_element (find_all soup) of
        c # cs \<Rightarrow> [max_by (\<lambda>e. length (get_text e)) c cs]
      | [] \<Rightarrow>
          (case filter (\<lambda>e. tag_name e = ''body'') (find_all soup) of
             b # bs \<Rightarrow> [b]
           | [] \<Rightarrow> soup))"

text \<open>
  The libraries the services call are parameters: BeautifulSoup's parser and its
  \<open>str()\<close>, and \<open>html2text\<close> as the three services configure it (links and images
  ignored, no wrapping).
\<close>

record html_lib =
  soup_parse :: "string \<Rightarrow> node list"
  soup_str :: "node list \<Rightarrow> string"
  html2text :: "string \<Rightarrow> string"

definition clean_html_for_product :: "html_lib \<Rightarrow> string \<Rightarrow> string" where
  "clean_html_for_product lib html_content =
     soup_str lib (select_container (filter_soup (soup_parse lib html_content)))"

text \<open>
  The fallback of the callers when the filter kept fewer than 500 characters: only
  script, style, noscript and iframe elements are removed.
\<close>

definition minimal_filter :: "html_lib \<Rightarrow> string \<Rightarrow> string" where
  "minimal_filter lib raw_html =
     soup_str lib
       (decompose_in (\<lambda>e. tag_name e \<in> set [''script'', ''style'', ''noscript'', ''iframe''])
          (soup_parse lib raw_html))"

text \<open>
  What BS4 and Playwright do with the page they fetched: filter, fall back to the
  minimal filter below 500 characters.
\<close>

definition filtered_html :: "html_lib \<Rightarrow> string \<Rightarrow> string" where
  "filtered_html lib raw_html =
     (let cleaned_html = clean_html_for_product lib raw_html in
      if length cleaned_html < 500 then minimal_filter lib raw_html else cleaned_html)"

section \<open>Variant A: BS4Service (services/bs4\_service.py)\<close>

text \<open>
  The network is a parameter: \<open>session_get i\<close> is what the attempt with index \<open>i\<close> meets
  before it has a response in hand: one of the two \<open>requests\<close> exceptions the code
  names, any other exception (an invalid URL among them), or a response.
  \<open>save_file url content\<close> stands for \<open>_save_markdown\<close>: the name of the file written,
  \<open>''''\<close> when writing failed.
\<close>

record http_response =
  status_code :: nat
  reason :: string
  resp_url :: string
  content :: string

datatype http_outcome =
    GetTimeout
  | GetConnectionError string
  | GetOtherError string
  | GetResponse http_response

record bs4_env =
  session_get :: "nat \<Rightarrow> http_outcome"
  bs4_lib :: html_lib
  bs4_save :: "string \<Rightarrow> string \<Rightarrow> string"

text \<open>
  \<open>response.raise_for_status()\<close> of \<open>requests\<close>: an \<open>HTTPError\<close> for a status from 400
  to 599, with the library's message.
\<close>

definition raise_for_status :: "http_response \<Rightarrow> string option" where
  "raise_for_status r =
     (if 400 \<le> status_code r \<and> status_code r < 500 then
        Some (str_nat (status_code r) @ '' Client Error: '' @ reason r @ '' for url: '' @ resp_url r)
      else if 500 \<le> status_code r \<and> status_code r < 600 then
        Some (str_nat (status_code r) @ '' Server Error: '' @ reason r @ '' for url: '' @ resp_url r)
      else None)"

text \<open>
  One pass through the body of the \<open>try\<close>: \<open>Inl\<close> is the text the \<open>except\<close> clauses
  store in \<open>last_error\<close>, \<open>Inr\<close> the dict returned from inside the loop.
\<close>

definition bs4_attempt :: "bs4_env \<Rightarrow> string \<Rightarrow> nat \<Rightarrow> string + scrape_result" where
  "bs4_attempt env url attempt =
     (case session_get env attempt of
        GetTimeout \<Rightarrow> Inl ''Request timed out''
      | GetConnectionError e \<Rightarrow> Inl (''Connection error: '' @ e)
      | GetOtherError e \<Rightarrow> Inl e
      | GetResponse response \<Rightarrow>
          if status_code response = 403 then Inl ''403 Forbidden - Site may be blocking requests''
          else if status_code response = 429 then Inl ''429 Too Many Requests - Rate limited''
          else if status_code response = 503 then Inl ''503 Service Unavailable - May need retry''
          else
            (case raise_for_status response of
               Some e \<Rightarrow> Inl e
             | None \<Rightarrow>
                 let markdown_content = html2text (bs4_lib env) (filtered_html (bs4_lib env) (content response))
                 in Inr \<lparr>success = True, markdown = markdown_content, error = None,
                         filename = Some (bs4_save env url markdown_content)\<rparr>))"

text \<open>What one call does to the outside: it sleeps and it starts attempts.\<close>

datatype fetch_event = Sleep nat | Attempt nat

text \<open>
  The loop \<open>for attempt in range(self.max_retries)\<close>: \<open>remaining\<close> counts the iterations
  left, \<open>attempt\<close> is the loop variable.
\<close>

fun bs4_loop ::
  "bs4_env \<Rightarrow> string \<Rightarrow> nat \<Rightarrow> nat \<Rightarrow> string option \<Rightarrow> fetch_event list \<times> scrape_result" where
  "bs4_loop env url 0 attempt last_error =
     ([], \<lparr>success = False, markdown = '''', error = last_error, filename = Some ''''\<rparr>)"
| "bs4_loop env url (Suc remaining) attempt last_error =
     (let evs = (if attempt > 0 then [Sleep (2 ^ attempt)] else []) @ [Attempt attempt] in
      case bs4_attempt env url attempt of
        Inr res \<Rightarrow> (evs, res)
      | Inl e \<Rightarrow>
          (case bs4_loop env url remaining (Suc attempt) (Some e) of
             (evs', res) \<Rightarrow> (evs @ evs', res)))"

definition bs4_scrape_url :: "bs4_env \<Rightarrow> nat \<Rightarrow> string \<Rightarrow> fetch_event list \<times> scrape_result" where
  "bs4_scrape_url env max_retries url = bs4_loop env url max_retries 0 None"

section \<open>Variant D: FirecrawlService (services/firecrawl\_service.py)\<close>

definition noise_section_patterns :: "rx list" where
  "noise_section_patterns =
     map (\<lambda>ws. Seq (plus (Atom (Ch CHR ''#''))) (Seq ws0 (alts ws)))
       [[lit ''related'', lit ''recommended'', lit ''you may'', lit ''also like'',
         lit ''customers also'', lit ''similar''],
        [Seq (lit ''review'') (Alt One (lit ''s'')), Seq (lit ''rating'') (Alt One (lit ''s'')),
         lit ''customer feedback'', lit ''testimonials''],
        [lit ''footer'', lit ''navigation'', lit ''menu'', lit ''links''],
        [lit ''share'', lit ''social'', lit ''follow us''],
        [lit ''newsletter'', lit ''subscribe'', lit ''sign up''],
        [lit ''recently viewed'', lit ''browsing history''],
        [lit ''compare'', lit ''wishlist'']]"

text \<open>
  \<open>noise_line_patterns\<close>: a bullet that holds nothing but a link (this pattern ends in
  \<open>$\<close>), and a line with three pipes.
\<close>

definition link_bullet :: rx where
  "link_bullet =
     Seq ws0 (Seq (Atom (OneOf ''*-'')) (Seq ws0 (Seq (Atom (Ch CHR ''['')) (Seq (Star (Atom Dot))
       (Seq (lit '']('') (Seq (Star (Atom Dot)) (Seq (Atom (Ch CHR '')'')) ws0)))))))"

definition pipe_row :: rx where
  "pipe_row =
     Seq ws0 (Seq (Atom (Ch CHR ''|'')) (Seq (Star (Atom Dot)) (Seq (Atom (Ch CHR ''|''))
       (Seq (Star (Atom Dot)) (Atom (Ch CHR ''|''))))))"

definition is_noise_line :: "string \<Rightarrow> bool" where
  "is_noise_line line = (re_match_eol link_bullet line \<or> re_match pipe_row line)"

text \<open>\<open>^#+\s+\<close>\<close>

definition heading_rx :: rx where
  "heading_rx = Seq (plus (Atom (Ch CHR ''#''))) (plus (Atom WSpace))"

text \<open>
  \<open>good_patterns\<close> are looked up with \<open>in\<close>. The eighth is written \<open>r'what\'s in'\<close>, a
  raw string, so it contains the backslash.
\<close>

definition good_patterns :: "string list" where
  "good_patterns =
     [''description'', ''specification'', ''feature'', ''detail'',
      ''overview'', ''about'', ''highlight'', [CHR ''w'', CHR ''h'', CHR ''a'', CHR ''t'', CHR 0x5C, CHR 0x27, CHR ''s'', CHR '' '', CHR ''i'', CHR ''n''],
      ''technical'', ''dimension'', ''warranty'']"

text \<open>The loop over the lines; \<open>skip_section\<close> is the flag it carries.\<close>

fun filter_lines :: "bool \<Rightarrow> string list \<Rightarrow> string list" where
  "filter_lines skip_section [] = []"
| "filter_lines skip_section (line # lines) =
     (let line_lower = py_lower line;
          skip1 = (if list_ex (\<lambda>p. re_match p line_lower) noise_section_patterns then True
                   else skip_section);
          skip2 = (if skip1 \<and> re_match heading_rx line then
                     (if list_ex (\<lambda>gp. py_in gp line_lower) good_patterns then False else skip1)
                   else skip1)
      in
        if skip2 then filter_lines skip2 lines
        else if py_count line '']('' > 3 then filter_lines skip2 lines
        else if \<not> is_noise_line line then line # filter_lines skip2 lines
        else filter_lines skip2 lines)"

text \<open>
  \<open>re.sub(r'\n{4,}', '\n\n\n', s)\<close>: every maximal run of four or more newlines becomes
  three. \<open>n\<close> is the length of the run of newlines just read.
\<close>

fun squeeze_newlines :: "nat \<Rightarrow> string \<Rightarrow> string" where
  "squeeze_newlines n [] = replicate (min n 3) (CHR 0x0A)"
| "squeeze_newlines n (c # cs) =
     (if c = CHR 0x0A then squeeze_newlines (Suc n) cs
      else replicate (min n 3) (CHR 0x0A) @ c # squeeze_newlines 0 cs)"

definition filter_markdown :: "string \<Rightarrow> string" where
  "filter_markdown md =
     py_strip (squeeze_newlines 0 (py_join [CHR 0x0A] (filter_lines False (py_split (CHR 0x0A) md))))"

text \<open>
  The API is a parameter: \<open>post i\<close> is what \<open>requests.post\<close> does in the attempt with
  index \<open>i\<close>. Of a response with status 200 the code reads
  \<open>response.json().get("data", {}).get("markdown", "")\<close>: that yields the markdown
  (\<open>""\<close> when a key is missing), or raises an exception of \<open>requests\<close>, which the last
  handler catches, or raises another exception (the body is not a dict of dicts, the
  markdown is not a string), which no handler catches.
\<close>

datatype fc_body =
    BodyMarkdown string
  | BodyRequestError string
  | BodyOtherError string

record fc_response =
  fc_status :: nat
  fc_text :: string
  fc_json :: fc_body

datatype fc_outcome =
    PostTimeout
  | PostRequestError string
  | PostOtherError string
  | PostResponse fc_response

record fc_env =
  api_key :: string
  post :: "nat \<Rightarrow> fc_outcome"
  fc_save :: "string \<Rightarrow> string \<Rightarrow> string"

definition MAX_RETRIES :: nat where
  "MAX_RETRIES = 3"

text \<open>The failure dicts of this service have no \<open>filename\<close> key.\<close>

definition fc_failure :: "string \<Rightarrow> scrape_result" where
  "fc_failure msg = \<lparr>success = False, markdown = '''', error = Some msg, filename = None\<rparr>"

text \<open>
  One pass through the body of the \<open>try\<close>: it returns the success dict or lets an
  exception escape (\<open>Done\<close>), or it ends in one of the three places that hold an error
  message and look at \<open>attempt\<close> (\<open>Failed\<close>).
\<close>

datatype fc_step = Done "string + scrape_result" | Failed string

definition fc_attempt :: "fc_env \<Rightarrow> string \<Rightarrow> nat \<Rightarrow> fc_step" where
  "fc_attempt env url attempt =
     (case post env attempt of
        PostTimeout \<Rightarrow> Failed ''Request timeout''
      | PostRequestError e \<Rightarrow> Failed e
      | PostOtherError e \<Rightarrow> Done (Inl e)
      | PostResponse response \<Rightarrow>
          if fc_status response = 200 then
            (case fc_json response of
               BodyMarkdown raw_markdown \<Rightarrow>
                 let markdown_content = filter_markdown raw_markdown in
                 Done (Inr \<lparr>success = True, markdown = markdown_content, error = None,
                            filename = Some (fc_save env url markdown_content)\<rparr>)
             | BodyRequestError e \<Rightarrow> Failed e
             | BodyOtherError e \<Rightarrow> Done (Inl e))
          else Failed (''HTTP '' @ str_nat (fc_status response) @ '': '' @ fc_text response))"

text \<open>
  The loop \<open>for attempt in range(MAX_RETRIES)\<close>. A failed attempt returns its error
  only in the last iteration (\<open>attempt == MAX_RETRIES - 1\<close>); the dict after the loop is
  reached when the loop falls through.
\<close>

fun fc_loop ::
  "fc_env \<Rightarrow> string \<Rightarrow> nat \<Rightarrow> nat \<Rightarrow> fetch_event list \<times> (string + scrape_result)" where
  "fc_loop env url 0 attempt = ([], Inr (fc_failure ''Max retries exceeded''))"
| "fc_loop env url (Suc remaining) attempt =
     (case fc_attempt env url attempt of
        Done out \<Rightarrow> ([Attempt attempt], out)
      | Failed msg \<Rightarrow>
          if attempt = MAX_RETRIES - 1 then ([Attempt attempt], Inr (fc_failure msg))
          else (case fc_loop env url remaining (Suc attempt) of
                  (evs, out) \<Rightarrow> (Attempt attempt # evs, out)))"

definition fc_scrape_url :: "fc_env \<Rightarrow> string \<Rightarrow> fetch_event list \<times> (string + scrape_result)" where
  "fc_scrape_url env url =
     (if api_key env = [] then ([], Inr (fc_failure ''Firecrawl API key not configured''))
      else fc_loop env url MAX_RETRIES 0)"

section \<open>Variant C: Crawl4AIService (services/crawl4ai\_service.py)\<close>

text \<open>
  Of the engine's result object the code reads \<open>success\<close>, \<open>error_message\<close> (\<open>None\<close>
  here when the attribute is missing), the markdown text (\<open>''''\<close> when the attribute
  chain gives none) and \<open>html\<close>.
\<close>

record crawl_result =
  crawl_success :: bool
  error_message :: "string option"
  raw_markdown :: string
  crawl_html :: "string option"

text \<open>
  \<open>asyncio.get_event_loop()\<close> raises a \<open>RuntimeError\<close> (there is no current loop) or
  returns a loop, running or not. A run of the coroutine \<open>_crawl()\<close>, through
  \<open>run_until_complete\<close> or \<open>asyncio.run\<close>, raises a \<open>RuntimeError\<close>, raises another
  exception, or returns the result object.
\<close>

datatype loop_probe = NoEventLoop | LoopRunning | LoopIdle

datatype crawl_run =
    RunRuntimeError string
  | RunOtherError string
  | RunResult crawl_result

text \<open>\<open>run_crawl n url\<close> is the run with index \<open>n\<close> of \<open>_crawl()\<close> within one call.\<close>

record c4_env =
  CRAWL4AI_AVAILABLE :: bool
  get_event_loop :: loop_probe
  run_crawl :: "nat \<Rightarrow> string \<Rightarrow> crawl_run"
  c4_lib :: html_lib
  c4_save :: "string \<Rightarrow> string \<Rightarrow> string"

text \<open>What one call does to the outside: it starts runs of the crawl (or a browser session).\<close>

datatype engine_event = Launch string

text \<open>A run whose exceptions nothing inside \<open>_run_async_crawl\<close> catches.\<close>

definition run_outcome :: "crawl_run \<Rightarrow> string + crawl_result" where
  "run_outcome r =
     (case r of RunRuntimeError e \<Rightarrow> Inl e | RunOtherError e \<Rightarrow> Inl e | RunResult result \<Rightarrow> Inr result)"

text \<open>
  The run inside the \<open>try\<close>: a \<open>RuntimeError\<close> out of it is caught and the crawl is run
  once more with \<open>asyncio.run\<close>.
\<close>

definition guarded_run :: "c4_env \<Rightarrow> string \<Rightarrow> engine_event list \<times> (string + crawl_result)" where
  "guarded_run env url =
     (case run_crawl env 0 url of
        RunRuntimeError e \<Rightarrow> ([Launch url, Launch url], run_outcome (run_crawl env 1 url))
      | RunOtherError e \<Rightarrow> ([Launch url], Inl e)
      | RunResult result \<Rightarrow> ([Launch url], Inr result))"

definition run_async_crawl :: "c4_env \<Rightarrow> string \<Rightarrow> engine_event list \<times> (string + crawl_result)" where
  "run_async_crawl env url =
     (case get_event_loop env of
        NoEventLoop \<Rightarrow> ([Launch url], run_outcome (run_crawl env 0 url))
      | LoopRunning \<Rightarrow> guarded_run env url
      | LoopIdle \<Rightarrow> guarded_run env url)"

definition c4_scrape_url :: "c4_env \<Rightarrow> string \<Rightarrow> engine_event list \<times> scrape_result" where
  "c4_scrape_url env url =
     (if \<not> CRAWL4AI_AVAILABLE env then
        ([], failure ''Crawl4AI not installed. Run: pip install crawl4ai && crawl4ai-setup'')
      else
        (case run_async_crawl env url of
           (evs, Inl e) \<Rightarrow> (evs, failure e)
         | (evs, Inr result) \<Rightarrow>
            (evs,
             if \<not> crawl_success result then
               failure (''Crawl failed: '' @
                 (case error_message result of None \<Rightarrow> ''Unknown error'' | Some e \<Rightarrow> e))
             else if raw_markdown result = [] then failure ''No markdown content returned''
             else
               let md =
                 (case crawl_html result of
                    None \<Rightarrow> raw_markdown result
                  | Some h \<Rightarrow>
                      if h = [] then raw_markdown result
                      else
                        let cleaned_html = clean_html_for_product (c4_lib env) h in
                        if length cleaned_html < 500 then raw_markdown result
                        else html2text (c4_lib env) cleaned_html)
               in \<lparr>success = True, markdown = md, error = None,
                    filename = Some (c4_save env url md)\<rparr>)))"

section \<open>Variant B: PlaywrightService (services/playwright\_service.py)\<close>

text \<open>Words separated by \<open>\s*\<close>, read under \<open>re.IGNORECASE\<close>.\<close>

fun words_i :: "string list \<Rightarrow> rx" where
  "words_i [] = One"
| "words_i [w] = lit_i w"
| "words_i (w # v # vs) = Seq (lit_i w) (Seq ws0 (words_i (v # vs)))"

definition any_tail :: rx where
  "any_tail = Star (Atom Dot)"

text \<open>\<open>skip_patterns\<close> of \<open>_clean_markdown\<close>; every one of them ends in \<open>$\<close>.\<close>

definition skip_patterns :: "rx list" where
  "skip_patterns =
     [Seq (between 1 6 (Atom (Ch CHR ''#''))) (Seq ws0 (Seq
        (alts [lit_i ''menu'', lit_i ''navigation'', lit_i ''footer'', lit_i ''header'',
               words_i [''sign'', ''in''], words_i [''log'', ''in''],
               lit_i ''cart'', lit_i ''wishlist'', lit_i ''account''])
        any_tail)),
      Seq ws0 (Seq (Atom (Ch CHR ''|'')) (Seq ws0 (Seq (Atom (Ch CHR ''|'')) ws0))),
      at_least 10 (Atom (OneOf ''-=_'')),
      Seq ws0 (Seq (Atom (Ch (CHR 0xA9))) any_tail),
      Seq ws0 (Seq (words_i [''all'', ''rights'', ''reserved'']) any_tail),
      Seq ws0 (Seq (words_i [''privacy'', ''policy'']) any_tail),
      Seq ws0 (Seq (lit_i ''terms'') (Seq ws0 (Seq
        (Alt (words_i [''of'', ''service'']) (words_i [''&'', ''conditions''])) any_tail))),
      Seq ws0 (Seq (words_i [''cookie'', ''policy'']) any_tail),
      Seq ws0 (Seq (Alt (lit_i ''subscribe'') (lit_i ''newsletter'')) any_tail),
      Seq ws0 (Seq (words_i [''follow'', ''us'']) any_tail),
      Seq ws0 (Seq
        (alts [lit_i ''facebook'', lit_i ''twitter'', lit_i ''instagram'', lit_i ''youtube'',
               lit_i ''linkedin'', lit_i ''pinterest''])
        any_tail),
      Seq ws0 (Seq (lit_i ''share'') (Seq ws0 (Seq
        (alts [lit_i ''this'', lit_i ''on'', lit_i ''via'']) any_tail))),
      Seq (lit_i ''skip'') (Seq ws0 (Seq (lit_i ''to'') (Seq ws0 (Seq
        (Alt One (Seq (lit_i ''main'') ws0)) (Seq (lit_i ''content'') any_tail))))),
      Seq ws0 (Seq (Atom (Ch CHR ''*'')) ws0),
      Seq ws0 (Seq (lit_i ''loading'') (at_least 3 (Atom (Ch CHR ''.'')))),
      Seq ws0 (Seq (words_i [''please'', ''wait'']) any_tail)]"

text \<open>The loop of \<open>_clean_markdown\<close>; \<open>cleaned_lines\<close> is the list built so far.\<close>

fun clean_lines :: "string list \<Rightarrow> string list \<Rightarrow> string list" where
  "clean_lines cleaned_lines [] = cleaned_lines"
| "clean_lines cleaned_lines (line # lines) =
     (let line_lower = py_strip (py_lower line) in
      if py_strip line = [] then
        (if cleaned_lines \<noteq> [] \<and> py_strip (last cleaned_lines) = [] then clean_lines cleaned_lines lines
         else clean_lines (cleaned_lines @ [line]) lines)
      else if list_ex (\<lambda>p. re_match_eol p line_lower) skip_patterns then clean_lines cleaned_lines lines
      else clean_lines (cleaned_lines @ [line]) lines)"

definition clean_markdown :: "string \<Rightarrow> string" where
  "clean_markdown md = py_join [CHR 0x0A] (clean_lines [] (py_split (CHR 0x0A) md))"

text \<open>
  \<open>sync_playwright\<close> is \<open>None\<close> when the package is missing. \<open>browse url\<close> is the whole
  browser session (launch, navigation, scrolling, expanding): it raises, or it yields
  \<open>page.content()\<close>.
\<close>

record pw_env =
  sync_playwright :: bool
  browse :: "string \<Rightarrow> string + string"
  pw_lib :: html_lib
  pw_save :: "string \<Rightarrow> string \<Rightarrow> string"

definition pw_scrape_url :: "pw_env \<Rightarrow> string \<Rightarrow> engine_event list \<times> scrape_result" where
  "pw_scrape_url env url =
     (if \<not> sync_playwright env then ([], failure ''Playwright not installed'')
      else
        ([Launch url],
         case browse env url of
           Inl e \<Rightarrow> failure e
         | Inr raw_content \<Rightarrow>
             let md = clean_markdown (html2text (pw_lib env) (filtered_html (pw_lib env) raw_content))
             in \<lparr>success = True, markdown = md, error = None,
                  filename = Some (pw_save env url md)\<rparr>))"

section \<open>The manager over the four services, and the scraping step of the pipeline (app.py)\<close>

text \<open>
  What \<open>ScrapingManager()\<close> is built from. The two optional services are \<open>None\<close> when
  their module could not be imported. That is not the case when only the crawl4ai or
  the playwright package is missing: the modules catch that themselves, and the service
  exists with \<open>CRAWL4AI_AVAILABLE\<close> or \<open>sync_playwright\<close> false. (The Playwright
  module imports nothing at its top that the BS4 module does not import as well.)
  \<open>BS4Service()\<close> is constructed with the default \<open>max_retries = 3\<close>.
\<close>

record world =
  w_bs4 :: bs4_env
  w_firecrawl :: fc_env
  w_crawl4ai :: "c4_env option"
  w_playwright :: "pw_env option"

definition bs4_default_retries :: nat where
  "bs4_default_retries = 3"

definition new_manager :: "world \<Rightarrow> scraping_manager" where
  "new_manager w =
     \<lparr>bs4_service = (\<lambda>url. Inr (snd (bs4_scrape_url (w_bs4 w) bs4_default_retries url))),
      firecrawl_service = (\<lambda>url. snd (fc_scrape_url (w_firecrawl w) url)),
      crawl4ai_service = map_option (\<lambda>env url. Inr (snd (c4_scrape_url env url))) (w_crawl4ai w),
      playwright_service = map_option (\<lambda>env url. Inr (snd (pw_scrape_url env url))) (w_playwright w)\<rparr>"

text \<open>\<open>f"url{i+1}"\<close>\<close>

definition url_key :: "nat \<Rightarrow> string" where
  "url_key i = ''url'' @ str_nat (i + 1)"

definition empty_url_result :: scrape_result where
  "empty_url_result = \<lparr>success = False, markdown = '''', error = Some ''Empty URL'', filename = None\<rparr>"

text \<open>
  Step 1 of \<open>process_extraction\<close>: the loop over the URL fields and their methods,
  from index \<open>i\<close> on. An exception out of the manager ends the run.
\<close>

fun scrape_sources ::
  "scraping_manager \<Rightarrow> nat \<Rightarrow> (string \<times> string) list
     \<Rightarrow> event list \<times> (string + (string \<times> scrape_result) list)" where
  "scrape_sources m i [] = ([], Inr [])"
| "scrape_sources m i ((url, method) # rest) =
     (if url \<noteq> [] \<and> py_strip url \<noteq> [] then
        (case scrape_url m (py_strip url) method of
           (t, Inl e) \<Rightarrow> (t, Inl e)
         | (t, Inr result) \<Rightarrow>
             (case scrape_sources m (Suc i) rest of
                (t', Inl e) \<Rightarrow> (t @ t', Inl e)
              | (t', Inr rs) \<Rightarrow> (t @ t', Inr ((url_key i, result) # rs))))
      else
        (case scrape_sources m (Suc i) rest of
           (t', Inl e) \<Rightarrow> (t', Inl e)
         | (t', Inr rs) \<Rightarrow> (t', Inr ((url_key i, empty_url_result) # rs))))"

text \<open>The document, when it gave text, is added as the source \<open>pdf\<close>.\<close>

definition add_pdf :: "string \<Rightarrow> (string \<times> scrape_result) list \<Rightarrow> (string \<times> scrape_result) list" where
  "add_pdf pdf_content scraped =
     (if pdf_content \<noteq> [] then
        scraped @ [(''pdf'', \<lparr>success = True, markdown = pdf_content, error = None, filename = None\<rparr>)]
      else scraped)"

section \<open>MultiSourceExtractionCoordinator: DeepSeekService (services/deepseek\_service.py)\<close>

text \<open>
  A value of the parsed JSON answer, as far as the code looks at it: its truth value and
  its \<open>str()\<close>. \<open>POther t s\<close> is any other value (a float, a list, a dict) with truth
  value \<open>t\<close> and \<open>str()\<close> text \<open>s\<close>.
\<close>

datatype pyval =
    PStr string
  | PNone
  | PBool bool
  | PInt int
  | POther bool string

fun py_truthy :: "pyval \<Rightarrow> bool" where
  "py_truthy (PStr s) = (s \<noteq> [])"
| "py_truthy PNone = False"
| "py_truthy (PBool b) = b"
| "py_truthy (PInt i) = (i \<noteq> 0)"
| "py_truthy (POther t s) = t"

fun py_str :: "pyval \<Rightarrow> string" where
  "py_str (PStr s) = s"
| "py_str PNone = ''None''"
| "py_str (PBool b) = (if b then ''True'' else ''False'')"
| "py_str (PInt i) = str_int i"
| "py_str (POther t s) = s"

text \<open>
  What is sent to the model: the prompt is assembled from these parts. A header comes
  with its rule when the category has mapping prompts; the supplemental context is cut
  to 3000 characters and the content to 15000.
\<close>

record llm_request =
  req_category :: string
  req_has_mapping :: bool
  req_headers :: "(string \<times> string option) list"
  req_context :: "string option"
  req_content :: string

text \<open>\<open>json.loads\<close>: a decode error, an object, or a value that is no object.\<close>

datatype json_loaded =
    JsonDecodeError string
  | JsonObject "(string \<times> pyval) list"
  | JsonOther

text \<open>
  The collaborators: whether a client exists (an API key is configured), the category
  catalog, the chat completion (\<open>Inl\<close>: the call or reading its answer raises; \<open>Inr\<close>: the
  message content) and the JSON parser.
\<close>

record ds_env =
  client :: bool
  get_category_mapping_prompts :: "string \<Rightarrow> (string \<times> string) list"
  chat :: "llm_request \<Rightarrow> string + string"
  json_loads :: "string \<Rightarrow> json_loaded"

text \<open>\<open>{h: "" for h in headers}\<close>\<close>

definition all_empty :: "string list \<Rightarrow> (string \<rightharpoonup> pyval)" where
  "all_empty headers = map_of (map (\<lambda>h. (h, PStr '''')) headers)"

definition build_request :: "ds_env \<Rightarrow> string \<Rightarrow> string list \<Rightarrow> string \<Rightarrow> string \<Rightarrow> llm_request" where
  "build_request env markdown_content headers category mm43_context =
     (let mapping_prompts = get_category_mapping_prompts env category;
          has_mapping = (length mapping_prompts > 0)
      in \<lparr>req_category = category,
          req_has_mapping = has_mapping,
          req_headers =
            (if has_mapping then
               map (\<lambda>h. (h, Some (case map_of mapping_prompts h of
                                     Some rule \<Rightarrow> rule | None \<Rightarrow> ''Extract from data''))) headers
             else map (\<lambda>h. (h, None)) headers),
          req_context = (if mm43_context \<noteq> [] then Some (take 3000 mm43_context) else None),
          req_content = take 15000 markdown_content\<rparr>)"

text \<open>
  An answer that starts with a code fence: the lines after the first fence line up to the next
  one. \<open>in_json\<close> is the flag of the loop.
\<close>

fun fence_lines :: "bool \<Rightarrow> string list \<Rightarrow> string list" where
  "fence_lines in_json [] = []"
| "fence_lines in_json (line # lines) =
     (if startswith line ''```'' \<and> \<not> in_json then fence_lines True lines
      else if startswith line ''```'' \<and> in_json then []
      else if in_json then line # fence_lines in_json lines
      else fence_lines in_json lines)"

definition unfence :: "string \<Rightarrow> string" where
  "unfence result_text =
     (if startswith result_text ''```''
      then py_join [CHR 0x0A] (fence_lines False (py_split (CHR 0x0A) result_text))
      else result_text)"

text \<open>
  \<open>extract_attributes\<close>: the requests sent (none or one) and the dict returned. A
  parsed value that is no object fails at \<open>len\<close> or \<open>.get\<close> and ends in the outer
  handler like an API error.
\<close>

definition extract_attributes ::
  "ds_env \<Rightarrow> string \<Rightarrow> string list \<Rightarrow> string \<Rightarrow> string \<Rightarrow> llm_request list \<times> (string \<rightharpoonup> pyval)" where
  "extract_attributes env markdown_content headers category mm43_context =
     (if \<not> client env then ([], all_empty headers)
      else if markdown_content = [] then ([], all_empty headers)
      else
        let request = build_request env markdown_content headers category mm43_context in
        ([request],
         case chat env request of
           Inl e \<Rightarrow> all_empty headers
         | Inr answer \<Rightarrow>
             (case json_loads env (unfence (py_strip answer)) of
                JsonDecodeError e \<Rightarrow> all_empty headers
              | JsonOther \<Rightarrow> all_empty headers
              | JsonObject extracted_data \<Rightarrow>
                  map_of (map (\<lambda>h. (h, case map_of extracted_data h of
                                          Some v \<Rightarrow> v | None \<Rightarrow> PStr '''')) headers))))"

type_synonym matrix = "string \<rightharpoonup> (string \<rightharpoonup> pyval)"

text \<open>
  \<open>for h in headers: results[h][url_key] = value(h)\<close>. \<open>results[h]\<close> exists for every
  \<open>h\<close> of \<open>headers\<close>, the matrix having been initialised from them.
\<close>

fun put_column :: "matrix \<Rightarrow> string \<Rightarrow> (string \<Rightarrow> pyval) \<Rightarrow> string list \<Rightarrow> matrix" where
  "put_column results k value [] = results"
| "put_column results k value (h # hs) =
     put_column (case results h of
                   Some row \<Rightarrow> results(h \<mapsto> row(k \<mapsto> value h))
                 | None \<Rightarrow> results) k value hs"

text \<open>The loop over \<open>markdown_contents.items()\<close>.\<close>

fun extract_loop ::
  "ds_env \<Rightarrow> matrix \<Rightarrow> (string \<times> scrape_result) list \<Rightarrow> string list \<Rightarrow> string \<Rightarrow> string
     \<Rightarrow> llm_request list \<times> matrix" where
  "extract_loop env results [] headers category mm43_context = ([], results)"
| "extract_loop env results ((k, content_data) # rest) headers category mm43_context =
     (if success content_data \<and> markdown content_data \<noteq> [] then
        (case extract_attributes env (markdown content_data) headers category mm43_context of
           (reqs, extracted) \<Rightarrow>
             (case extract_loop env
                     (put_column results k
                        (\<lambda>h. case extracted h of Some v \<Rightarrow> v | None \<Rightarrow> PStr '''') headers)
                     rest headers category mm43_context of
                (reqs', results') \<Rightarrow> (reqs @ reqs', results')))
      else
        extract_loop env (put_column results k (\<lambda>h. PStr '''') headers)
          rest headers category mm43_context)"

definition extract_from_multiple_sources ::
  "ds_env \<Rightarrow> (string \<times> scrape_result) list \<Rightarrow> string list \<Rightarrow> string \<Rightarrow> string
     \<Rightarrow> llm_request list \<times> matrix" where
  "extract_from_multiple_sources env markdown_contents headers category mm43_context =
     extract_loop env (map_of (map (\<lambda>h. (h, Map.empty)) headers))
       markdown_contents headers category mm43_context"

section \<open>Reconciliation (render\_results\_table in app.py)\<close>

text \<open>
  The part of \<open>st.session_state\<close> the buttons write: \<open>final_values\<close> and the text
  fields \<open>text_final_{idx}\<close>.
\<close>

record session_state =
  final_values :: "string \<rightharpoonup> string"
  text_final :: "nat \<rightharpoonup> string"

text \<open>The test \<open>val and str(val).strip()\<close>.\<close>

definition usable :: "pyval \<Rightarrow> bool" where
  "usable val = (py_truthy val \<and> py_strip (py_str val) \<noteq> [])"

text \<open>\<open>d.get(key, "")\<close>\<close>

definition get_or_empty :: "(string \<rightharpoonup> pyval) \<Rightarrow> string \<Rightarrow> pyval" where
  "get_or_empty d key = (case d key of Some v \<Rightarrow> v | None \<Rightarrow> PStr '''')"

text \<open>\<open>results.get(header, {})\<close>\<close>

definition row_of :: "matrix \<Rightarrow> string \<Rightarrow> (string \<rightharpoonup> pyval)" where
  "row_of results header = (case results header of Some r \<Rightarrow> r | None \<Rightarrow> Map.empty)"

definition select_value :: "session_state \<Rightarrow> nat \<Rightarrow> string \<Rightarrow> pyval \<Rightarrow> session_state" where
  "select_value st idx header val =
     st\<lparr>final_values := (final_values st)(header \<mapsto> py_str val),
        text_final := (text_final st)(idx \<mapsto> py_str val)\<rparr>"

definition source_priority :: "string list" where
  "source_priority = [''url1'', ''url2'', ''url3'', ''pdf'']"

text \<open>The inner loop of "Auto-fill Best": the first key whose value passes the test, if any.\<close>

fun first_usable :: "(string \<rightharpoonup> pyval) \<Rightarrow> string list \<Rightarrow> pyval option" where
  "first_usable url_values [] = None"
| "first_usable url_values (key # keys) =
     (let val = get_or_empty url_values key in
      if usable val then Some val else first_usable url_values keys)"

fun autofill_best :: "matrix \<Rightarrow> nat \<Rightarrow> string list \<Rightarrow> session_state \<Rightarrow> session_state" where
  "autofill_best results idx [] st = st"
| "autofill_best results idx (header # headers) st =
     (case first_usable (row_of results header) source_priority of
        Some val \<Rightarrow> autofill_best results (Suc idx) headers (select_value st idx header val)
      | None \<Rightarrow> autofill_best results (Suc idx) headers st)"

text \<open>"Use URL 1", "Use URL 2", "Use URL 3": the same loop for the keys \<open>url1\<close>, \<open>url2\<close>, \<open>url3\<close>.\<close>

fun use_source :: "string \<Rightarrow> matrix \<Rightarrow> nat \<Rightarrow> string list \<Rightarrow> session_state \<Rightarrow> session_state" where
  "use_source key results idx [] st = st"
| "use_source key results idx (header # headers) st =
     (let val = get_or_empty (row_of results header) key in
      if usable val then use_source key results (Suc idx) headers (select_value st idx header val)
      else use_source key results (Suc idx) headers st)"

text \<open>
  The policies as the specification words them: the first non-empty value in the
  order of the sources.
\<close>

fun first_non_empty :: "(string \<rightharpoonup> pyval) \<Rightarrow> string list \<Rightarrow> pyval option" where
  "first_non_empty url_values [] = None"
| "first_non_empty url_values (key # keys) =
     (if get_or_empty url_values key \<noteq> PStr '''' then Some (get_or_empty url_values key)
      else first_non_empty url_values keys)"

section \<open>Notions used to state the properties\<close>

text \<open>
  The events of \<open>k\<close> attempts in a row, the first with index \<open>a\<close>: each retry (index
  above 0) comes after a sleep of \<open>2 ^ i\<close> seconds.
\<close>

definition retry_schedule :: "nat \<Rightarrow> nat \<Rightarrow> fetch_event list" where
  "retry_schedule a k =
     concat (map (\<lambda>i. (if i > 0 then [Sleep (2 ^ i)] else []) @ [Attempt i]) [a..<a + k])"

text \<open>The invariant of a ScrapeResult as the code keeps it.\<close>

definition result_ok :: "scrape_result \<Rightarrow> bool" where
  "result_ok r = ((success r \<longrightarrow> error r = None) \<and> (\<not> success r \<longrightarrow> markdown r = []))"

fun returns_ok :: "string + scrape_result \<Rightarrow> bool" where
  "returns_ok (Inl e) = True"
| "returns_ok (Inr r) = result_ok r"

text \<open>Every service of a manager returns well-formed results.\<close>

definition services_ok :: "scraping_manager \<Rightarrow> bool" where
  "services_ok m =
     ((\<forall>u. returns_ok (bs4_service m u)) \<and> (\<forall>u. returns_ok (firecrawl_service m u))
      \<and> (\<forall>f u. crawl4ai_service m = Some f \<longrightarrow> returns_ok (f u))
      \<and> (\<forall>f u. playwright_service m = Some f \<longrightarrow> returns_ok (f u)))"

text \<open>
  The extraction for one request fails: the call raises, or its answer does not parse
  to an object.
\<close>

definition extraction_fails :: "ds_env \<Rightarrow> llm_request \<Rightarrow> bool" where
  "extraction_fails env request =
     (case chat env request of
        Inl e \<Rightarrow> True
      | Inr answer \<Rightarrow>
          (case json_loads env (unfence (py_strip answer)) of
             JsonObject extracted_data \<Rightarrow> False
           | JsonDecodeError e \<Rightarrow> True
           | JsonOther \<Rightarrow> True))"

text \<open>A source the coordinator sends to the extractor.\<close>

definition has_content :: "scrape_result \<Rightarrow> bool" where
  "has_content r = (success r \<and> markdown r \<noteq> [])"

text \<open>An element that is a product element or has one below it.\<close>

definition holds_product :: "node \<Rightarrow> bool" where
  "holds_product e = (is_product_element e \<or> list_ex is_product_element (descendants e))"

section \<open>Concrete inputs\<close>

text \<open>A library that reads a page as one text node, prints the text back and leaves it as it is.\<close>

definition text_only_lib :: html_lib where
  "text_only_lib =
     \<lparr>soup_parse = (\<lambda>s. [Text PlainText s]), soup_str = (\<lambda>ns. concat (map get_text ns)), html2text = (\<lambda>s. s)\<rparr>"

definition saved_as :: "string \<Rightarrow> string \<Rightarrow> string" where
  "saved_as url body = ''page.md''"

text \<open>A site that answers every request with 404, one that answers 403, and a URL without a scheme.\<close>

definition not_found :: "nat \<Rightarrow> http_outcome" where
  "not_found i =
     GetResponse \<lparr>status_code = 404, reason = ''Not Found'', resp_url = ''https://shop.example/p'', content = ''''\<rparr>"


definition no_scheme :: "nat \<Rightarrow> http_outcome" where
  "no_scheme i = GetOtherError ''Invalid URL: No scheme supplied''"

definition bs4_404_env :: bs4_env where
  "bs4_404_env = \<lparr>session_get = not_found, bs4_lib = text_only_lib, bs4_save = saved_as\<rparr>"


definition bs4_no_scheme_env :: bs4_env where
  "bs4_no_scheme_env = \<lparr>session_get = no_scheme, bs4_lib = text_only_lib, bs4_save = saved_as\<rparr>"

text \<open>A Firecrawl API that answers 200 with an empty markdown, and one that answers 500.\<close>

definition blank_page :: "nat \<Rightarrow> fc_outcome" where
  "blank_page i = PostResponse \<lparr>fc_status = 200, fc_text = ''{}'', fc_json = BodyMarkdown ''''\<rparr>"

definition fc_blank_env :: fc_env where
  "fc_blank_env = \<lparr>api_key = ''key'', post = blank_page, fc_save = saved_as\<rparr>"



text \<open>Runtimes in which the crawl4ai and the playwright package are missing.\<close>

definition crawl_refused :: "nat \<Rightarrow> string \<Rightarrow> crawl_run" where
  "crawl_refused n u = RunOtherError ''net::ERR_CONNECTION_REFUSED''"

definition browse_refused :: "string \<Rightarrow> string + string" where
  "browse_refused u = Inl ''net::ERR_CONNECTION_REFUSED''"

definition c4_missing_env :: c4_env where
  "c4_missing_env =
     \<lparr>CRAWL4AI_AVAILABLE = False, get_event_loop = NoEventLoop, run_crawl = crawl_refused,
      c4_lib = text_only_lib, c4_save = saved_as\<rparr>"

definition pw_missing_env :: pw_env where
  "pw_missing_env =
     \<lparr>sync_playwright = False, browse = browse_refused, pw_lib = text_only_lib, pw_save = saved_as\<rparr>"

text \<open>
  Three runtimes without the playwright package. In the first two the Crawl4AI module
  could not be imported; in the third it could, and the crawl4ai package is missing.
\<close>

definition demo_world :: world where
  "demo_world =
     \<lparr>w_bs4 = bs4_404_env, w_firecrawl = fc_blank_env, w_crawl4ai = None,
      w_playwright = Some pw_missing_env\<rparr>"

definition no_scheme_world :: world where
  "no_scheme_world =
     \<lparr>w_bs4 = bs4_no_scheme_env, w_firecrawl = fc_blank_env, w_crawl4ai = None,
      w_playwright = Some pw_missing_env\<rparr>"


text \<open>The matrix of the specification's example, and one whose first source is blank.\<close>

definition color_matrix :: matrix where
  "color_matrix =
     map_of [(''color'', map_of [(''url1'', PStr ''''), (''url2'', PStr ''Black''), (''url3'', PStr ''White'')])]"

definition blank_first_matrix :: matrix where
  "blank_first_matrix =
     map_of [(''color'', map_of [(''url1'', PStr '' ''), (''url2'', PStr ''Black'')])]"

definition size_matrix :: matrix where
  "size_matrix =
     map_of [(''color'', map_of [(''url3'', PStr '''')]),
             (''size'', map_of [(''url3'', PStr ''XL'')])]"

definition empty_session :: session_state where
  "empty_session = \<lparr>final_values = Map.empty, text_final = Map.empty\<rparr>"

definition red_session :: session_state where
  "red_session = \<lparr>final_values = map_of [(''color'', ''Red'')], text_final = map_of [(0, ''Red'')]\<rparr>"

text \<open>An extractor that reads one page, answers prose for another and times out otherwise.\<close>

definition demo_chat :: "llm_request \<Rightarrow> string + string" where
  "demo_chat request =
     (if req_content request = ''good page'' then Inr ''{color: Black}''
      else if req_content request = ''bad page'' then Inr ''I cannot help with that.''
      else Inl ''Request timed out.'')"

definition demo_json_loads :: "string \<Rightarrow> json_loaded" where
  "demo_json_loads s =
     (if s = ''{color: Black}'' then JsonObject [(''color'', PStr ''Black'')]
      else JsonDecodeError ''Expecting value'')"

definition no_prompts :: "string \<Rightarrow> (string \<times> string) list" where
  "no_prompts category = []"

definition demo_ds_env :: ds_env where
  "demo_ds_env =
     \<lparr>client = True, get_category_mapping_prompts = no_prompts, chat = demo_chat,
      json_loads = demo_json_loads\<rparr>"

definition demo_sources :: "(string \<times> scrape_result) list" where
  "demo_sources =
     [(''url1'', empty_url_result),
      (''url2'', \<lparr>success = True, markdown = ''bad page'', error = None, filename = Some ''a.md''\<rparr>),
      (''url3'', \<lparr>success = True, markdown = ''good page'', error = None, filename = Some ''b.md''\<rparr>)]"

text \<open>
  An element whose data attribute names a review and a price, a review box that holds
  a specification, and a box of related items around a template of 101 characters.
\<close>

definition rated_price_box :: node where
  "rated_price_box = Elem ''div'' [] [(''data-widget'', ''review-price'')] [Text PlainText ''4.5 stars'']"

definition review_with_specs :: node where
  "review_with_specs =
     Elem ''div'' [''reviews''] [] [Elem ''p'' [''product-spec''] [] [Text PlainText ''Weight: 2 kg'']]"

definition long_template :: node where
  "long_template = Elem ''template'' [''reviews''] [] [Text TemplateText (replicate 101 CHR ''x'')]"

definition related_with_template :: node where
  "related_with_template = Elem ''div'' [''related''] [] [long_template]"

section \<open>Properties of the scraping manager\<close>




text \<open>
  Claim C10. For a method that, trimmed, is none of BS4, Crawl4AI, Playwright, Firecrawl
  and Auto, the manager returns the failure dict with the error
  \<open>Unknown method: <method>\<close> (the method as given) and an empty file name, and its
  trace holds the one log line and no call of a service.
\<close>

theorem unknown_method:
  "py_strip method \<notin> {''BS4'', ''Crawl4AI'', ''Playwright'', ''Firecrawl'', ''Auto''} \<Longrightarrow>
   scrape_url m url method =
     ([LogProcessing (py_strip method)],
      Inr \<lparr>success = False, markdown = '''', error = Some (''Unknown method: '' @ method), filename = Some ''''\<rparr>)"
  by (simp add: scrape_url_def failure_def Let_def)

theorem unknown_method_witness:
  "py_strip '' bs4 '' \<notin> {''BS4'', ''Crawl4AI'', ''Playwright'', ''Firecrawl'', ''Auto''} \<and>
   scrape_url (new_manager demo_world) ''https://shop.example/p'' '' bs4 '' =
     ([LogProcessing ''bs4''],
      Inr \<lparr>success = False, markdown = '''', error = Some ''Unknown method:  bs4 '', filename = Some ''''\<rparr>)"
proof -
  have s: "py_strip '' bs4 '' = ''bs4''"
    by (simp add: py_strip_def py_lstrip_def py_rstrip_def py_isspace_def)
  then have h: "py_strip '' bs4 '' \<notin> {''BS4'', ''Crawl4AI'', ''Playwright'', ''Firecrawl'', ''Auto''}"
    by simp
  show ?thesis
    using h unknown_method [OF h, of "new_manager demo_world" "''https://shop.example/p''"] s
    by simp
qed

text \<open>Invoke events carry the URL given.\<close>

lemma auto_stage_urls:
  "Invoke v u \<in> set (fst (auto_stage w svc url)) \<Longrightarrow> u = url"
  by (auto simp: auto_stage_def split: option.splits sum.splits if_splits)

lemma scrape_auto_urls:
  "Invoke v u \<in> set (fst (scrape_auto m url)) \<Longrightarrow> u = url"
  unfolding scrape_auto_def
  by (auto split: option.splits prod.splits dest: auto_stage_urls[of v u, THEN sym] 
       simp: auto_stage_def split: sum.splits if_splits)

lemma scrape_auto_urls':
  "scrape_auto m url = (t, out) \<Longrightarrow> Invoke v u \<in> set t \<Longrightarrow> u = url"
  using scrape_auto_urls [of v u m url] by simp

lemma scrape_url_urls:
  "Invoke v u \<in> set (fst (scrape_url m url method)) \<Longrightarrow> u = url"
  unfolding scrape_url_def Let_def
  by (auto split: option.splits prod.splits if_splits dest: scrape_auto_urls')

section \<open>Properties of the strategies\<close>

lemma retry_schedule_0 [simp]: "retry_schedule a 0 = []"
  by (simp add: retry_schedule_def)

lemma retry_schedule_Suc:
  "retry_schedule a (Suc k) = (if a > 0 then [Sleep (2 ^ a)] else []) @ [Attempt a] @ retry_schedule (Suc a) k"
  by (simp add: retry_schedule_def upt_conv_Cons)

lemma bs4_loop_runs:
  "bs4_loop env url n a le0 = (tr, res) \<Longrightarrow>
     (\<exists>k<n. (\<forall>j<k. \<exists>e. bs4_attempt env url (a + j) = Inl e)
            \<and> bs4_attempt env url (a + k) = Inr res \<and> tr = retry_schedule a (Suc k))
   \<or> ((\<forall>j<n. \<exists>e. bs4_attempt env url (a + j) = Inl e) \<and> tr = retry_schedule a n
        \<and> res = \<lparr>success = False, markdown = '''',
                  error = (if n = 0 then le0 else
                     (case bs4_attempt env url (a + n - 1) of Inl e \<Rightarrow> Some e | Inr r \<Rightarrow> None)),
                  filename = Some ''''\<rparr>)"
proof (induction n arbitrary: a le0 tr res)
  case 0
  then show ?case by simp
next
  case (Suc n)
  show ?case
  proof (cases "bs4_attempt env url a")
    case (Inr r)
    with Suc.prems have "tr = retry_schedule a (Suc 0)" "res = r"
      by (auto simp: retry_schedule_Suc Let_def)
    with Inr show ?thesis by (intro disjI1 exI[of _ 0]) simp
  next
    case (Inl e)
    obtain tr' res' where rec: "bs4_loop env url n (Suc a) (Some e) = (tr', res')"
      by (cases "bs4_loop env url n (Suc a) (Some e)")
    with Suc.prems Inl have tr: "tr = ((if a > 0 then [Sleep (2 ^ a)] else []) @ [Attempt a]) @ tr'"
      and res: "res = res'"
      by (auto simp: Let_def)
    from Suc.IH[OF rec] show ?thesis
    proof
      assume "\<exists>k<n. (\<forall>j<k. \<exists>e. bs4_attempt env url (Suc a + j) = Inl e)
            \<and> bs4_attempt env url (Suc a + k) = Inr res' \<and> tr' = retry_schedule (Suc a) (Suc k)"
      then obtain k where k: "k < n" "\<forall>j<k. \<exists>e. bs4_attempt env url (Suc a + j) = Inl e"
        "bs4_attempt env url (Suc a + k) = Inr res'" "tr' = retry_schedule (Suc a) (Suc k)"
        by blast
      have "\<forall>j<Suc k. \<exists>e. bs4_attempt env url (a + j) = Inl e"
      proof (intro allI impI)
        fix j assume "j < Suc k"
        then show "\<exists>e. bs4_attempt env url (a + j) = Inl e"
          using Inl k(2) by (cases j) auto
      qed
      moreover have "tr = retry_schedule a (Suc (Suc k))"
        using tr k(4) by (simp add: retry_schedule_Suc[of a "Suc k"])
      ultimately show ?thesis
        using k(1,3) res by (intro disjI1 exI[of _ "Suc k"]) simp
    next
      assume a: "(\<forall>j<n. \<exists>e. bs4_attempt env url (Suc a + j) = Inl e) \<and> tr' = retry_schedule (Suc a) n
        \<and> res' = \<lparr>success = False, markdown = '''',
                  error = (if n = 0 then Some e else
                     (case bs4_attempt env url (Suc a + n - 1) of Inl e \<Rightarrow> Some e | Inr r \<Rightarrow> None)),
                  filename = Some ''''\<rparr>"
      have "\<forall>j<Suc n. \<exists>e. bs4_attempt env url (a + j) = Inl e"
      proof (intro allI impI)
        fix j assume "j < Suc n"
        then show "\<exists>e. bs4_attempt env url (a + j) = Inl e"
          using Inl a by (cases j) auto
      qed
      moreover have "tr = retry_schedule a (Suc n)"
        using tr a by (simp add: retry_schedule_Suc[of a n])
      moreover have "res = \<lparr>success = False, markdown = '''',
                  error = (case bs4_attempt env url (a + Suc n - 1) of Inl e \<Rightarrow> Some e | Inr r \<Rightarrow> None),
                  filename = Some ''''\<rparr>"
        using a res Inl by (cases n) auto
      ultimately show ?thesis by (intro disjI2) simp
    qed
  qed
qed

text \<open>
  Claim C7, as amended. The BS4 strategy makes at least one and at most three attempts
  (the default \<open>max_retries\<close>), sleeping \<open>2 ^ attempt\<close> seconds before each retry (2, then
  4). It retries after every failed attempt, whatever the exception was: a timeout, a
  connection error, a status 403, 429 or 503, any other error status (404 included) and
  any other exception alike. Every attempt before the last one made has failed; the
  last one made either succeeded, and its dict is returned, or it was the third, and
  the failure dict carries its error.
\<close>

theorem bs4_retry_policy:
  "\<exists>k. 1 \<le> k \<and> k \<le> 3
     \<and> fst (bs4_scrape_url env bs4_default_retries url) = retry_schedule 0 k
     \<and> (\<forall>j<k - 1. \<exists>e. bs4_attempt env url j = Inl e)
     \<and> (case bs4_attempt env url (k - 1) of
          Inr res \<Rightarrow> snd (bs4_scrape_url env bs4_default_retries url) = res
        | Inl e \<Rightarrow> k = 3 \<and> snd (bs4_scrape_url env bs4_default_retries url) = failure e)"
proof -
  obtain tr res where run: "bs4_loop env url 3 0 None = (tr, res)"
    by (cases "bs4_loop env url 3 0 None")
  from bs4_loop_runs[OF run] show ?thesis
  proof
    assume "\<exists>k<3. (\<forall>j<k. \<exists>e. bs4_attempt env url (0 + j) = Inl e)
            \<and> bs4_attempt env url (0 + k) = Inr res \<and> tr = retry_schedule 0 (Suc k)"
    then obtain k where "k < 3" "\<forall>j<k. \<exists>e. bs4_attempt env url j = Inl e"
      "bs4_attempt env url k = Inr res" "tr = retry_schedule 0 (Suc k)"
      by auto
    then show ?thesis
      using run by (intro exI[of _ "Suc k"]) (simp add: bs4_scrape_url_def bs4_default_retries_def)
  next
    assume a: "(\<forall>j<3. \<exists>e. bs4_attempt env url (0 + j) = Inl e) \<and> tr = retry_schedule 0 3
        \<and> res = \<lparr>success = False, markdown = '''',
                  error = (if (3::nat) = 0 then None else
                     (case bs4_attempt env url (0 + 3 - 1) of Inl e \<Rightarrow> Some e | Inr r \<Rightarrow> None)),
                  filename = Some ''''\<rparr>"
    have "(2::nat) < 3" by simp
    with a obtain e where e: "bs4_attempt env url 2 = Inl e"
      by (metis add_0)
    with a run show ?thesis
      by (intro exI[of _ 3]) (simp add: bs4_scrape_url_def bs4_default_retries_def failure_def)
  qed
qed

lemma str_nat_404: "str_nat 404 = ''404''"
  by code_simp

lemma not_found_attempt:
  "bs4_attempt bs4_404_env url j = Inl ''404 Client Error: Not Found for url: https://shop.example/p''"
  by (simp add: bs4_attempt_def bs4_404_env_def not_found_def raise_for_status_def str_nat_404)

text \<open>Three attempts that all meet a 404: the schedule is run to its end and the last error returned.\<close>

theorem bs4_retry_policy_witness:
  "fst (bs4_scrape_url bs4_404_env bs4_default_retries ''https://shop.example/p'') = retry_schedule 0 3
   \<and> bs4_attempt bs4_404_env ''https://shop.example/p'' 0
       = Inl ''404 Client Error: Not Found for url: https://shop.example/p''
   \<and> bs4_attempt bs4_404_env ''https://shop.example/p'' 1
       = Inl ''404 Client Error: Not Found for url: https://shop.example/p''
   \<and> snd (bs4_scrape_url bs4_404_env bs4_default_retries ''https://shop.example/p'')
       = failure ''404 Client Error: Not Found for url: https://shop.example/p''"
  using bs4_retry_policy [of bs4_404_env "''https://shop.example/p''"]
  by (auto simp: not_found_attempt)

text \<open>
  Against claim C7 as stated: a status 404 is none of timeout, connection error, 403,
  429 and 503, and it is retried twice.
\<close>

theorem not_found_is_retried:
  "bs4_scrape_url bs4_404_env 3 ''https://shop.example/p''
     = ([Attempt 0, Sleep 2, Attempt 1, Sleep 4, Attempt 2],
        failure ''404 Client Error: Not Found for url: https://shop.example/p'')"
  by code_simp






lemma bs4_attempt_ok: "bs4_attempt env url a = Inr r \<Longrightarrow> result_ok r"
  by (auto simp: bs4_attempt_def result_ok_def Let_def
      split: http_outcome.splits if_splits option.splits)

lemma bs4_loop_ok: "result_ok (snd (bs4_loop env url n a le))"
proof (induction n arbitrary: a le)
  case 0
  show ?case by (simp add: result_ok_def)
next
  case (Suc n)
  show ?case
  proof (cases "bs4_attempt env url a")
    case (Inl e)
    obtain t r where rec: "bs4_loop env url n (Suc a) (Some e) = (t, r)"
      by (cases "bs4_loop env url n (Suc a) (Some e)")
    with Suc[of "Suc a" "Some e"] have "result_ok r" by simp
    with Inl rec show ?thesis
      by (simp add: Let_def)
  next
    case (Inr r)
    then show ?thesis by (simp add: Let_def bs4_attempt_ok)
  qed
qed

lemma fc_failure_ok: "result_ok (fc_failure msg)"
  by (simp add: fc_failure_def result_ok_def)

lemma failure_ok: "result_ok (failure msg)"
  by (simp add: failure_def result_ok_def)

lemma fc_attempt_ok: "fc_attempt env url a = Done out \<Longrightarrow> returns_ok out"
  by (auto simp: fc_attempt_def result_ok_def Let_def
      split: fc_outcome.splits fc_body.splits if_splits)

lemma fc_loop_ok: "returns_ok (snd (fc_loop env url n a))"
proof (induction n arbitrary: a)
  case 0
  show ?case by (simp add: fc_failure_ok)
next
  case (Suc n)
  obtain evs out where rec: "fc_loop env url n (Suc a) = (evs, out)"
    by (cases "fc_loop env url n (Suc a)")
  with Suc[of "Suc a"] have out: "returns_ok out" by simp
  show ?case
  proof (cases "fc_attempt env url a")
    case (Done r)
    then show ?thesis by (simp add: fc_attempt_ok)
  next
    case (Failed msg)
    then show ?thesis using rec out by (simp add: fc_failure_ok)
  qed
qed

lemma fc_scrape_ok: "returns_ok (snd (fc_scrape_url env url))"
  by (simp add: fc_scrape_url_def fc_failure_ok fc_loop_ok)

lemma c4_scrape_ok: "result_ok (snd (c4_scrape_url env url))"
  by (auto simp: c4_scrape_url_def failure_def Let_def result_ok_def
      split: prod.splits sum.splits option.splits)

lemma pw_scrape_ok: "result_ok (snd (pw_scrape_url env url))"
  by (auto simp: pw_scrape_url_def failure_def Let_def result_ok_def split: sum.splits)

lemma auto_stage_ok:
  "(\<forall>f u. svc = Some f \<longrightarrow> returns_ok (f u)) \<Longrightarrow> auto_stage v svc url = (t, Some out) \<Longrightarrow> returns_ok out"
  by (auto simp: auto_stage_def split: option.splits sum.splits if_splits)

lemma scrape_auto_ok: "services_ok m \<Longrightarrow> returns_ok (snd (scrape_auto m url))"
  unfolding scrape_auto_def services_ok_def
  by (auto split: prod.splits option.splits dest!: auto_stage_ok[rotated])

lemma scrape_url_ok: "services_ok m \<Longrightarrow> returns_ok (snd (scrape_url m url method))"
  using scrape_auto_ok[of m url]
  by (auto simp: scrape_url_def Let_def failure_ok services_ok_def split: option.splits prod.splits)

lemma new_manager_ok: "services_ok (new_manager w)"
  by (auto simp: services_ok_def new_manager_def bs4_scrape_url_def bs4_loop_ok fc_scrape_ok
      c4_scrape_ok pw_scrape_ok)

text \<open>
  Claim C2, as amended. Every dict returned by one of the four strategies or by the
  manager built over them satisfies: \<open>success\<close> implies that \<open>error\<close> is \<open>None\<close>, and
  no \<open>success\<close> implies that \<open>markdown\<close> is the empty string. (That the markdown of a
  success is non-empty is not part of it.)
\<close>

theorem results_well_formed:
  "result_ok (snd (bs4_scrape_url b n url))
   \<and> returns_ok (snd (fc_scrape_url f url))
   \<and> result_ok (snd (c4_scrape_url c url))
   \<and> result_ok (snd (pw_scrape_url p url))
   \<and> returns_ok (snd (scrape_url (new_manager w) url method))"
  by (simp add: bs4_scrape_url_def bs4_loop_ok fc_scrape_ok c4_scrape_ok pw_scrape_ok
      scrape_url_ok new_manager_ok)

text \<open>
  Against claim C2 as stated: Firecrawl answers 200 with an empty markdown, and the
  strategy returns a success whose markdown is empty.
\<close>

theorem success_with_empty_markdown:
  "snd (fc_scrape_url fc_blank_env ''https://shop.example/p'')
     = Inr \<lparr>success = True, markdown = '''', error = None, filename = Some ''page.md''\<rparr>"
  by code_simp

theorem results_well_formed_witness:
  "snd (scrape_url (new_manager demo_world) ''https://shop.example/p'' ''Auto'')
     = Inr \<lparr>success = True, markdown = '''', error = None, filename = Some ''page.md''\<rparr>
   \<and> success (snd (bs4_scrape_url bs4_404_env 3 ''https://shop.example/p'')) = False
   \<and> markdown (snd (bs4_scrape_url bs4_404_env 3 ''https://shop.example/p'')) = ''''"
proof -
  have a: "snd (scrape_url (new_manager demo_world) ''https://shop.example/p'' ''Auto'')
     = Inr \<lparr>success = True, markdown = '''', error = None, filename = Some ''page.md''\<rparr>"
    by code_simp
  have b: "success (snd (bs4_scrape_url bs4_404_env 3 ''https://shop.example/p'')) = False"
    by code_simp
  show ?thesis
    using a b
      results_well_formed [of bs4_404_env 3 "''https://shop.example/p''" fc_blank_env
         c4_missing_env pw_missing_env demo_world "''Auto''"]
    by (simp add: result_ok_def)
qed

section \<open>Properties of the scraping step\<close>

lemma py_strip_Nil [simp]: "py_strip [] = []"
  by (simp add: py_strip_def py_lstrip_def py_rstrip_def)

lemma py_strip_idem: "py_strip (py_strip s) = py_strip s"
proof -
  define t where "t = dropWhile py_isspace s"
  define d where "d = dropWhile py_isspace (rev t)"
  have strip: "py_strip s = rev d"
    by (simp add: py_strip_def py_lstrip_def py_rstrip_def t_def d_def)
  have d_hd: "d = [] \<or> \<not> py_isspace (hd d)"
    unfolding d_def using hd_dropWhile[of py_isspace "rev t"] by blast
  have t_hd: "t = [] \<or> \<not> py_isspace (hd t)"
    unfolding t_def using hd_dropWhile[of py_isspace s] by blast
  have "rev t = takeWhile py_isspace (rev t) @ d"
    by (simp add: d_def)
  then have t_eq: "t = rev d @ rev (takeWhile py_isspace (rev t))"
    by (metis rev_append rev_rev_ident)
  then have "rev d = [] \<or> hd (rev d) = hd t"
    by (metis hd_append2)
  with t_hd t_eq have r_hd: "rev d = [] \<or> \<not> py_isspace (hd (rev d))"
    by (metis Nil_is_append_conv)
  have "dropWhile py_isspace (rev d) = rev d"
    using r_hd by (simp add: dropWhile_eq_self_iff)
  moreover have "dropWhile py_isspace d = d"
    using d_hd by (simp add: dropWhile_eq_self_iff)
  ultimately have "py_strip (rev d) = rev d"
    by (simp add: py_strip_def py_lstrip_def py_rstrip_def)
  with strip show ?thesis by simp
qed

lemma scrape_url_urls':
  "scrape_url m url method = (t, out) \<Longrightarrow> Invoke v u \<in> set t \<Longrightarrow> u = url"
  using scrape_url_urls [of v u m url "method"] by simp

lemma scrape_sources_Cons_results:
  assumes rest: "\<And>rs. out' = Inr rs \<Longrightarrow> length rs = length rest
         \<and> (\<forall>j<length rest. py_strip (fst (rest ! j)) = [] \<longrightarrow>
               rs ! j = (url_key (Suc i + j), empty_url_result))"
    and hd: "py_strip (fst field) = [] \<Longrightarrow> r = empty_url_result"
    and out: "out' = Inr rs'"
  shows "length ((url_key i, r) # rs') = length (field # rest)
         \<and> (\<forall>j<length (field # rest). py_strip (fst ((field # rest) ! j)) = [] \<longrightarrow>
               ((url_key i, r) # rs') ! j = (url_key (i + j), empty_url_result))"
proof (intro conjI allI impI)
  from rest[OF out] show "length ((url_key i, r) # rs') = length (field # rest)" by simp
next
  fix j assume j: "j < length (field # rest)" and blank: "py_strip (fst ((field # rest) ! j)) = []"
  show "((url_key i, r) # rs') ! j = (url_key (i + j), empty_url_result)"
  proof (cases j)
    case 0
    with blank hd show ?thesis by simp
  next
    case (Suc j')
    with j blank have "j' < length rest" "py_strip (fst (rest ! j')) = []" by simp_all
    with rest[OF out] have "rs' ! j' = (url_key (Suc i + j'), empty_url_result)" by blast
    with Suc show ?thesis by simp
  qed
qed

text \<open>
  Claim C9, as amended. The scraping step of the pipeline, which calls the manager,
  short-circuits: a URL field that is empty or blank gets the failure dict with the
  error \<open>Empty URL\<close> under its key, and no variant is ever invoked with an empty or
  blank URL. (The manager's own \<open>scrape_url\<close> has no such check.)
\<close>

theorem empty_url_short_circuit:
  "(\<forall>v u. Invoke v u \<in> set (fst (scrape_sources m i inputs)) \<longrightarrow> py_strip u \<noteq> [])
   \<and> (\<forall>rs. snd (scrape_sources m i inputs) = Inr rs \<longrightarrow>
         length rs = length inputs
         \<and> (\<forall>j<length inputs. py_strip (fst (inputs ! j)) = [] \<longrightarrow>
               rs ! j = (url_key (i + j), empty_url_result)))"
proof (induction inputs arbitrary: i)
  case Nil
  show ?case by simp
next
  case (Cons field rest)
  obtain url mth where field: "field = (url, mth)" by (cases field)
  obtain t' out' where rec: "scrape_sources m (Suc i) rest = (t', out')"
    by (cases "scrape_sources m (Suc i) rest")
  from Cons[of "Suc i"] rec
  have tr: "\<And>v u. Invoke v u \<in> set t' \<Longrightarrow> py_strip u \<noteq> []"
    by simp
  from Cons[of "Suc i"] rec
  have res: "\<And>rs. out' = Inr rs \<Longrightarrow> length rs = length rest
         \<and> (\<forall>j<length rest. py_strip (fst (rest ! j)) = [] \<longrightarrow>
               rs ! j = (url_key (Suc i + j), empty_url_result))"
    by simp
  show ?case
  proof (cases "py_strip url = []")
    case True
    have eq: "scrape_sources m i (field # rest) =
        (t', case out' of Inl e \<Rightarrow> Inl e | Inr rs \<Rightarrow> Inr ((url_key i, empty_url_result) # rs))"
      using True rec field by (simp split: sum.splits)
    show ?thesis
    proof (rule conjI; intro allI impI)
      fix v u assume "Invoke v u \<in> set (fst (scrape_sources m i (field # rest)))"
      with eq tr show "py_strip u \<noteq> []" by simp
    next
      fix rs assume "snd (scrape_sources m i (field # rest)) = Inr rs"
      with eq obtain rs' where out': "out' = Inr rs'" and rs: "rs = (url_key i, empty_url_result) # rs'"
        by (cases out') auto
      from scrape_sources_Cons_results[OF res _ out', of field empty_url_result]
      show "length rs = length (field # rest)
         \<and> (\<forall>j<length (field # rest). py_strip (fst ((field # rest) ! j)) = [] \<longrightarrow>
               rs ! j = (url_key (i + j), empty_url_result))"
        unfolding rs by blast
    qed
  next
    case False
    then have ne: "url \<noteq> []" by auto
    obtain t out where one: "scrape_url m (py_strip url) mth = (t, out)"
      by (cases "scrape_url m (py_strip url) mth")
    have t_ok: "\<And>v u. Invoke v u \<in> set t \<Longrightarrow> py_strip u \<noteq> []"
    proof -
      fix v u assume "Invoke v u \<in> set t"
      with one have "u = py_strip url" by (rule scrape_url_urls')
      then show "py_strip u \<noteq> []" using False by (simp add: py_strip_idem)
    qed
    have eq: "scrape_sources m i (field # rest) =
        (case out of
           Inl e \<Rightarrow> (t, Inl e)
         | Inr result \<Rightarrow>
             (case out' of Inl e \<Rightarrow> (t @ t', Inl e)
                         | Inr rs \<Rightarrow> (t @ t', Inr ((url_key i, result) # rs))))"
      using False ne rec field one by (simp split: sum.splits)
    show ?thesis
    proof (rule conjI; intro allI impI)
      fix v u assume "Invoke v u \<in> set (fst (scrape_sources m i (field # rest)))"
      with eq have "Invoke v u \<in> set t \<or> Invoke v u \<in> set t'"
        by (cases out; cases out') auto
      with tr t_ok show "py_strip u \<noteq> []" by blast
    next
      fix rs assume "snd (scrape_sources m i (field # rest)) = Inr rs"
      with eq obtain result rs' where out': "out' = Inr rs'" and rs: "rs = (url_key i, result) # rs'"
        by (cases out; cases out') auto
      have "py_strip (fst field) = [] \<Longrightarrow> result = empty_url_result"
        using False field by simp
      from scrape_sources_Cons_results[OF res this out']
      show "length rs = length (field # rest)
         \<and> (\<forall>j<length (field # rest). py_strip (fst ((field # rest) ! j)) = [] \<longrightarrow>
               rs ! j = (url_key (i + j), empty_url_result))"
        unfolding rs by blast
    qed
  qed
qed

text \<open>
  Against claim C9 as stated: given the empty URL and the method BS4, the manager
  invokes the BS4 service, and the error returned is the one of the fetch.
\<close>

theorem manager_takes_empty_url:
  "scrape_url (new_manager no_scheme_world) '''' ''BS4'' =
     ([LogProcessing ''BS4'', Invoke BS4 ''''],
      Inr \<lparr>success = False, markdown = '''', error = Some ''Invalid URL: No scheme supplied'',
           filename = Some ''''\<rparr>)"
  by code_simp

theorem empty_url_short_circuit_witness:
  "py_strip (fst ([('''', ''Auto''), (''  '', ''BS4''), ('' https://shop.example/p '', ''BS4'')] ! 1)) = []
   \<and> scrape_sources (new_manager demo_world) 0
         [('''', ''Auto''), (''  '', ''BS4''), ('' https://shop.example/p '', ''BS4'')]
       = ([LogProcessing ''BS4'', Invoke BS4 ''https://shop.example/p''],
          Inr [(''url1'', empty_url_result), (''url2'', empty_url_result),
               (''url3'', failure ''404 Client Error: Not Found for url: https://shop.example/p'')])
   \<and> [(''url1'', empty_url_result), (''url2'', empty_url_result),
       (''url3'', failure ''404 Client Error: Not Found for url: https://shop.example/p'')] ! 1
       = (url_key (0 + 1), empty_url_result)
   \<and> py_strip ''https://shop.example/p'' \<noteq> []"
proof -
  let ?inputs = "[('''', ''Auto''), (''  '', ''BS4''), ('' https://shop.example/p '', ''BS4'')]"
  let ?rs = "[(''url1'', empty_url_result), (''url2'', empty_url_result),
       (''url3'', failure ''404 Client Error: Not Found for url: https://shop.example/p'')]"
  have blank: "py_strip (fst (?inputs ! 1)) = []"
    by (simp add: py_strip_def py_lstrip_def py_rstrip_def py_isspace_def)
  have run: "scrape_sources (new_manager demo_world) 0 ?inputs
       = ([LogProcessing ''BS4'', Invoke BS4 ''https://shop.example/p''], Inr ?rs)"
    by code_simp
  then have s: "snd (scrape_sources (new_manager demo_world) 0 ?inputs) = Inr ?rs"
    and t: "Invoke BS4 ''https://shop.example/p'' \<in> set (fst (scrape_sources (new_manager demo_world) 0 ?inputs))"
    by simp_all
  have len: "1 < length ?inputs"
    by simp
  note inst = empty_url_short_circuit [of "new_manager demo_world" 0 ?inputs]
  from inst t have called: "py_strip ''https://shop.example/p'' \<noteq> []"
    by blast
  from inst have "\<forall>rs. snd (scrape_sources (new_manager demo_world) 0 ?inputs) = Inr rs \<longrightarrow>
         length rs = length ?inputs
         \<and> (\<forall>j<length ?inputs. py_strip (fst (?inputs ! j)) = [] \<longrightarrow>
               rs ! j = (url_key (0 + j), empty_url_result))"
    by (rule conjunct2)
  with s len blank have "?rs ! 1 = (url_key (0 + 1), empty_url_result)"
    by blast
  with blank run called show ?thesis by blast
qed

section \<open>Properties of the reconciliation\<close>

lemma select_value_final:
  "final_values (select_value st idx header val) h =
     (if h = header then Some (py_str val) else final_values st h)"
  by (simp add: select_value_def)

lemma use_source_final:
  "final_values (use_source key results idx headers st) h =
     (if h \<in> set headers \<and> usable (get_or_empty (row_of results h) key)
      then Some (py_str (get_or_empty (row_of results h) key))
      else final_values st h)"
  by (induction headers arbitrary: idx st) (auto simp: Let_def select_value_final)

lemma usable_not_empty: "usable v \<Longrightarrow> v \<noteq> PStr ''''"
  by (auto simp: usable_def)

text \<open>
  Claim C5. Single-source reconciliation with a source key changes the final value of
  an attribute only when that source's value for it is not the empty string, and then
  to (the text of) that value; when the value is the empty string the attribute's
  final value is what it was. An existing selection is never cleared.
\<close>

theorem single_source_frame:
  "(final_values (use_source key results idx headers st) h \<noteq> final_values st h \<longrightarrow>
      get_or_empty (row_of results h) key \<noteq> PStr ''''
      \<and> final_values (use_source key results idx headers st) h
          = Some (py_str (get_or_empty (row_of results h) key)))
   \<and> (get_or_empty (row_of results h) key = PStr '''' \<longrightarrow>
        final_values (use_source key results idx headers st) h = final_values st h)"
  using usable_not_empty [of "get_or_empty (row_of results h) key"]
  by (auto simp: use_source_final)

theorem single_source_frame_witness:
  "get_or_empty (row_of size_matrix ''color'') ''url3'' = PStr ''''
   \<and> final_values (use_source ''url3'' size_matrix 0 [''color'', ''size''] red_session) ''color''
       = final_values red_session ''color''
   \<and> final_values red_session ''color'' = Some ''Red''
   \<and> final_values red_session ''size'' = None
   \<and> get_or_empty (row_of size_matrix ''size'') ''url3'' = PStr ''XL''
   \<and> final_values (use_source ''url3'' size_matrix 0 [''color'', ''size''] red_session) ''size''
       = Some ''XL''"
proof -
  have a: "get_or_empty (row_of size_matrix ''color'') ''url3'' = PStr ''''"
    by (simp add: get_or_empty_def row_of_def size_matrix_def)
  have b: "final_values red_session ''color'' = Some ''Red''" "final_values red_session ''size'' = None"
    by (simp_all add: red_session_def)
  have c: "final_values (use_source ''url3'' size_matrix 0 [''color'', ''size''] red_session) ''size''
       = Some ''XL''"
    by code_simp
  have d: "get_or_empty (row_of size_matrix ''size'') ''url3'' = PStr ''XL''"
    by (simp add: get_or_empty_def row_of_def size_matrix_def)
  show ?thesis
    using a b c d
      single_source_frame [of "''url3''" size_matrix 0 "[''color'', ''size'']" red_session "''color''"]
      single_source_frame [of "''url3''" size_matrix 0 "[''color'', ''size'']" red_session "''size''"]
    by blast
qed

lemma first_usable_find:
  "first_usable row keys = find usable (map (get_or_empty row) keys)"
  by (induction keys) (auto simp: Let_def)

lemma autofill_final:
  "final_values (autofill_best results idx headers st) h =
     (if h \<in> set headers then
        (case first_usable (row_of results h) source_priority of
           Some v \<Rightarrow> Some (py_str v) | None \<Rightarrow> final_values st h)
      else final_values st h)"
  by (induction headers arbitrary: idx st) (auto simp: select_value_final split: option.splits)

text \<open>
  Claim C4, as amended. For every attribute of the list, best-available reconciliation
  assigns the first value, scanning url1, url2, url3, pdf in this order, that passes the
  test of the code: it is truthy and its text is not blank (for a string: not empty
  after stripping whitespace). When no source has such a value the final value stays as
  it was. For the matrix of the example the final value of \<open>color\<close> is \<open>Black\<close>.
\<close>

theorem best_available_first_non_blank:
  "(h \<in> set headers \<longrightarrow>
      final_values (autofill_best results idx headers st) h =
        (case find usable (map (get_or_empty (row_of results h)) [''url1'', ''url2'', ''url3'', ''pdf'']) of
           Some v \<Rightarrow> Some (py_str v)
         | None \<Rightarrow> final_values st h))
   \<and> usable (PStr s) = (py_strip s \<noteq> [])
   \<and> final_values (autofill_best color_matrix idx [''color''] st) ''color'' = Some ''Black''"
proof (intro conjI impI)
  assume "h \<in> set headers"
  then show "final_values (autofill_best results idx headers st) h =
        (case find usable (map (get_or_empty (row_of results h)) [''url1'', ''url2'', ''url3'', ''pdf'']) of
           Some v \<Rightarrow> Some (py_str v)
         | None \<Rightarrow> final_values st h)"
    by (simp only: autofill_final first_usable_find source_priority_def if_True)
next
  show "usable (PStr s) = (py_strip s \<noteq> [])"
    by (auto simp: usable_def)
next
  have "first_usable (row_of color_matrix ''color'') source_priority = Some (PStr ''Black'')"
    by code_simp
  then show "final_values (autofill_best color_matrix idx [''color''] st) ''color'' = Some ''Black''"
    by (simp add: select_value_final)
qed

text \<open>
  Against claim C4 as stated: the first non-empty value of \<open>color\<close> is the blank of url1,
  and the value assigned is that of url2.
\<close>

theorem blank_value_is_passed_over:
  "first_non_empty (row_of blank_first_matrix ''color'') source_priority = Some (PStr '' '')
   \<and> final_values (autofill_best blank_first_matrix 0 [''color''] empty_session) ''color'' = Some ''Black''"
  by code_simp

theorem best_available_first_non_blank_witness:
  "''color'' \<in> set [''color'']
   \<and> find usable (map (get_or_empty (row_of blank_first_matrix ''color'')) [''url1'', ''url2'', ''url3'', ''pdf''])
       = Some (PStr ''Black'')
   \<and> final_values (autofill_best blank_first_matrix 0 [''color''] empty_session) ''color'' = Some ''Black''"
proof -
  have a: "''color'' \<in> set [''color'']" by simp
  have b: "find usable (map (get_or_empty (row_of blank_first_matrix ''color'')) [''url1'', ''url2'', ''url3'', ''pdf''])
       = Some (PStr ''Black'')"
    by code_simp
  show ?thesis
    using a b best_available_first_non_blank [of "''color''" "[''color'']" blank_first_matrix 0 empty_session]
    by simp
qed

section \<open>Properties of the extraction coordinator\<close>

lemma all_empty_at: "h \<in> set headers \<Longrightarrow> all_empty headers h = Some (PStr '''')"
  by (induction headers) (auto simp: all_empty_def)

lemma extract_attributes_fails:
  "extraction_fails env (build_request env md headers category mm) \<Longrightarrow>
   snd (extract_attributes env md headers category mm) = all_empty headers"
  by (auto simp: extract_attributes_def extraction_fails_def Let_def
      split: sum.splits json_loaded.splits)

lemma put_column_at:
  "put_column results k val hs h =
     (if h \<in> set hs then map_option (\<lambda>row. row(k \<mapsto> val h)) (results h) else results h)"
proof (induction hs arbitrary: results)
  case Nil
  show ?case by simp
next
  case (Cons x hs)
  show ?case
    by (cases "results x"; cases "results h") (auto simp: Cons)
qed

text \<open>A row of the matrix is never lost, and a source writes under its own key only.\<close>

lemma extract_loop_keeps_rows:
  "results h = Some row \<Longrightarrow>
   \<exists>row'. snd (extract_loop env results sources headers category mm) h = Some row'
          \<and> (k \<notin> fst ` set sources \<longrightarrow> row' k = row k)"
proof (induction sources arbitrary: results row)
  case Nil
  then show ?case by simp
next
  case (Cons src rest)
  obtain k' r where src: "src = (k', r)" by (cases src)
  define val where "val = (if success r \<and> markdown r \<noteq> []
     then (\<lambda>h. case snd (extract_attributes env (markdown r) headers category mm) h of
                  Some v \<Rightarrow> v | None \<Rightarrow> PStr '''')
     else (\<lambda>h. PStr ''''))"
  define results1 where "results1 = put_column results k' val headers"
  have step: "snd (extract_loop env results (src # rest) headers category mm)
        = snd (extract_loop env results1 rest headers category mm)"
    by (simp add: src results1_def val_def split: prod.splits)
  have "\<exists>row1. results1 h = Some row1 \<and> (k \<noteq> k' \<longrightarrow> row1 k = row k)"
    using Cons.prems by (cases "h \<in> set headers") (auto simp: results1_def put_column_at)
  then obtain row1 where row1: "results1 h = Some row1" and same: "k \<noteq> k' \<Longrightarrow> row1 k = row k"
    by blast
  from Cons.IH[of results1 row1] row1 obtain row' where
    "snd (extract_loop env results1 rest headers category mm) h = Some row'"
    "k \<notin> fst ` set rest \<longrightarrow> row' k = row1 k"
    by blast
  with step same src show ?case by auto
qed

lemma extract_loop_column:
  assumes "distinct (map fst sources)" "(k, r) \<in> set sources" "h \<in> set headers"
    "results h = Some row"
  shows "\<exists>row'. snd (extract_loop env results sources headers category mm) h = Some row'
          \<and> row' k = Some (if has_content r
               then (case snd (extract_attributes env (markdown r) headers category mm) h of
                       Some v \<Rightarrow> v | None \<Rightarrow> PStr '''')
               else PStr '''')"
  using assms
proof (induction sources arbitrary: results row)
  case Nil
  then show ?case by simp
next
  case (Cons src rest)
  obtain k' r' where src: "src = (k', r')" by (cases src)
  define val where "val = (if success r' \<and> markdown r' \<noteq> []
     then (\<lambda>h. case snd (extract_attributes env (markdown r') headers category mm) h of
                  Some v \<Rightarrow> v | None \<Rightarrow> PStr '''')
     else (\<lambda>h. PStr ''''))"
  define results1 where "results1 = put_column results k' val headers"
  have step: "snd (extract_loop env results (src # rest) headers category mm)
        = snd (extract_loop env results1 rest headers category mm)"
    by (simp add: src results1_def val_def split: prod.splits)
  have row1: "results1 h = Some (row(k' \<mapsto> val h))"
    using Cons.prems by (simp add: results1_def put_column_at)
  show ?case
  proof (cases "(k, r) = (k', r')")
    case True
    with Cons.prems src have "k \<notin> fst ` set rest" by auto
    with extract_loop_keeps_rows[of results1 h "row(k' \<mapsto> val h)" env rest headers category mm k] row1
    obtain row' where "snd (extract_loop env results1 rest headers category mm) h = Some row'"
      "row' k = (row(k' \<mapsto> val h)) k"
      by blast
    with True step show ?thesis
      by (auto simp: val_def has_content_def)
  next
    case False
    with Cons.prems src have "(k, r) \<in> set rest" "distinct (map fst rest)" by auto
    with Cons.IH[of results1 "row(k' \<mapsto> val h)"] Cons.prems(3) row1
    have "\<exists>row'. snd (extract_loop env results1 rest headers category mm) h = Some row'
          \<and> row' k = Some (if has_content r
               then (case snd (extract_attributes env (markdown r) headers category mm) h of
                       Some v \<Rightarrow> v | None \<Rightarrow> PStr '''')
               else PStr '''')"
      by blast
    then show ?thesis unfolding step .
  qed
qed

lemma extract_loop_requests:
  "client env \<Longrightarrow>
   fst (extract_loop env results sources headers category mm) =
     map (\<lambda>(k, r). build_request env (markdown r) headers category mm)
       (filter (\<lambda>(k, r). has_content r) sources)"
proof (induction sources arbitrary: results)
  case Nil
  show ?case by simp
next
  case (Cons src rest)
  obtain k r where src: "src = (k, r)" by (cases src)
  show ?case
  proof (cases "has_content r")
    case True
    then have "fst (extract_attributes env (markdown r) headers category mm)
        = [build_request env (markdown r) headers category mm]"
      using Cons.prems by (simp add: has_content_def extract_attributes_def Let_def)
    then obtain ex where ea: "extract_attributes env (markdown r) headers category mm
        = ([build_request env (markdown r) headers category mm], ex)"
      by (cases "extract_attributes env (markdown r) headers category mm") simp
    define results1 where "results1 = put_column results k
        (\<lambda>h. case ex h of Some v \<Rightarrow> v | None \<Rightarrow> PStr '''') headers"
    obtain reqs' res' where el: "extract_loop env results1 rest headers category mm = (reqs', res')"
      by (cases "extract_loop env results1 rest headers category mm")
    with Cons.IH[OF Cons.prems, of results1]
    have "reqs' = map (\<lambda>(k, r). build_request env (markdown r) headers category mm)
       (filter (\<lambda>(k, r). has_content r) rest)"
      by simp
    with True ea el show ?thesis
      by (simp add: src has_content_def results1_def)
  next
    case False
    with Cons.IH[OF Cons.prems] show ?thesis
      by (auto simp: src has_content_def)
  qed
qed

lemma initial_rows:
  "h \<in> set headers \<Longrightarrow> map_of (map (\<lambda>h. (h, Map.empty)) headers) h = Some Map.empty"
  by (induction headers) auto

text \<open>
  Claim C3. The matrix has an entry for every requested attribute under every source
  key of the input (a dict: its keys are distinct). A source without success or with
  empty markdown, and a source whose extraction raises or does not parse to an object,
  has the empty string there. The other sources are processed all the same: with a
  client, every source that has content is sent to the extractor, in the order of the
  input.
\<close>

theorem matrix_is_total:
  "(distinct (map fst sources) \<and> (k, r) \<in> set sources \<and> h \<in> set headers \<longrightarrow>
      (\<exists>row v. snd (extract_from_multiple_sources env sources headers category mm) h = Some row
         \<and> row k = Some v
         \<and> (\<not> has_content r \<longrightarrow> v = PStr '''')
         \<and> (extraction_fails env (build_request env (markdown r) headers category mm) \<longrightarrow>
              v = PStr '''')))
   \<and> (client env \<longrightarrow>
        fst (extract_from_multiple_sources env sources headers category mm) =
          map (\<lambda>(k, r). build_request env (markdown r) headers category mm)
            (filter (\<lambda>(k, r). has_content r) sources))"
proof (intro conjI impI)
  assume a: "distinct (map fst sources) \<and> (k, r) \<in> set sources \<and> h \<in> set headers"
  then have h: "h \<in> set headers" by simp
  from a extract_loop_column[of sources k r h headers _ Map.empty env category mm]
    initial_rows[OF h]
  obtain row where row:
    "snd (extract_from_multiple_sources env sources headers category mm) h = Some row"
    "row k = Some (if has_content r
               then (case snd (extract_attributes env (markdown r) headers category mm) h of
                       Some v \<Rightarrow> v | None \<Rightarrow> PStr '''')
               else PStr '''')"
    unfolding extract_from_multiple_sources_def by blast
  have "extraction_fails env (build_request env (markdown r) headers category mm) \<Longrightarrow>
      (case snd (extract_attributes env (markdown r) headers category mm) h of
                       Some v \<Rightarrow> v | None \<Rightarrow> PStr '''') = PStr ''''"
    using h by (simp add: extract_attributes_fails all_empty_at)
  with row show "\<exists>row v. snd (extract_from_multiple_sources env sources headers category mm) h = Some row
         \<and> row k = Some v
         \<and> (\<not> has_content r \<longrightarrow> v = PStr '''')
         \<and> (extraction_fails env (build_request env (markdown r) headers category mm) \<longrightarrow>
              v = PStr '''')"
    by auto
next
  assume "client env"
  then show "fst (extract_from_multiple_sources env sources headers category mm) =
          map (\<lambda>(k, r). build_request env (markdown r) headers category mm)
            (filter (\<lambda>(k, r). has_content r) sources)"
    unfolding extract_from_multiple_sources_def by (rule extract_loop_requests)
qed

lemmas demo_eval =
  extraction_fails_def build_request_def demo_ds_env_def demo_chat_def no_prompts_def
  demo_json_loads_def unfence_def py_strip_def py_lstrip_def py_rstrip_def py_isspace_def
  extract_from_multiple_sources_def demo_sources_def extract_attributes_def all_empty_def
  empty_url_result_def Let_def

theorem matrix_is_total_witness:
  "distinct (map fst demo_sources)
   \<and> (''url2'', \<lparr>success = True, markdown = ''bad page'', error = None, filename = Some ''a.md''\<rparr>)
        \<in> set demo_sources
   \<and> ''color'' \<in> set [''color'', ''size'']
   \<and> extraction_fails demo_ds_env (build_request demo_ds_env ''bad page'' [''color'', ''size''] ''TV'' '''')
   \<and> the (snd (extract_from_multiple_sources demo_ds_env demo_sources [''color'', ''size''] ''TV'' '''') ''color'') ''url1''
        = Some (PStr '''')
   \<and> the (snd (extract_from_multiple_sources demo_ds_env demo_sources [''color'', ''size''] ''TV'' '''') ''color'') ''url2''
        = Some (PStr '''')
   \<and> the (snd (extract_from_multiple_sources demo_ds_env demo_sources [''color'', ''size''] ''TV'' '''') ''color'') ''url3''
        = Some (PStr ''Black'')
   \<and> length (fst (extract_from_multiple_sources demo_ds_env demo_sources [''color'', ''size''] ''TV'' '''')) = 2"
proof -
  have d: "distinct (map fst demo_sources)"
    by (simp add: demo_sources_def)
  have m: "(''url2'', \<lparr>success = True, markdown = ''bad page'', error = None, filename = Some ''a.md''\<rparr>)
        \<in> set demo_sources"
    by (simp add: demo_sources_def)
  have h: "''color'' \<in> set [''color'', ''size'']"
    by simp
  have f: "extraction_fails demo_ds_env (build_request demo_ds_env ''bad page'' [''color'', ''size''] ''TV'' '''')"
    by (simp add: demo_eval)
  have v1: "the (snd (extract_from_multiple_sources demo_ds_env demo_sources [''color'', ''size''] ''TV'' '''') ''color'') ''url1''
        = Some (PStr '''')"
    by (simp add: demo_eval)
  have v2: "the (snd (extract_from_multiple_sources demo_ds_env demo_sources [''color'', ''size''] ''TV'' '''') ''color'') ''url2''
        = Some (PStr '''')"
    by (simp add: demo_eval)
  have v3: "the (snd (extract_from_multiple_sources demo_ds_env demo_sources [''color'', ''size''] ''TV'' '''') ''color'') ''url3''
        = Some (PStr ''Black'')"
    by (simp add: demo_eval)
  have n: "length (fst (extract_from_multiple_sources demo_ds_env demo_sources [''color'', ''size''] ''TV'' '''')) = 2"
    by (simp add: demo_eval)
  show ?thesis
    using d m h f v1 v2 v3 n
      matrix_is_total [of demo_sources "''url2''"
        "\<lparr>success = True, markdown = ''bad page'', error = None, filename = Some ''a.md''\<rparr>"
        "''color''" "[''color'', ''size'']" demo_ds_env "''TV''" "''''"]
    by blast
qed

section \<open>Properties of the content filter\<close>

lemma elems_trans: "d \<in> set (elems a) \<Longrightarrow> x \<in> set (elems d) \<Longrightarrow> x \<in> set (elems a)"
proof (induction a arbitrary: d)
  case (Elem name classes attrs kids)
  show ?case
  proof (cases "d = Elem name classes attrs kids")
    case True
    with Elem.prems show ?thesis by simp
  next
    case False
    with Elem.prems obtain c where c: "c \<in> set kids" "d \<in> set (elems c)" by auto
    from Elem.IH[OF c Elem.prems(2)] c(1) show ?thesis by auto
  qed
qed simp_all

lemma descendants_subset: "set (descendants a) \<subseteq> set (elems a)"
  by (cases a) auto

lemma elems_split: "d \<in> set (elems a) \<Longrightarrow> d = a \<or> d \<in> set (descendants a)"
  by (cases a) auto

lemma descendants_elems: "d \<in> set (descendants a) \<Longrightarrow> x \<in> set (elems d) \<Longrightarrow> x \<in> set (descendants a)"
proof (cases a)
  case (Elem name classes attrs kids)
  assume "d \<in> set (descendants a)" "x \<in> set (elems d)"
  with Elem obtain c where "c \<in> set kids" "d \<in> set (elems c)" by auto
  with \<open>x \<in> set (elems d)\<close> elems_trans[of d c x] Elem show ?thesis by auto
qed simp_all

text \<open>Whatever holds a product element is held by elements that hold a product element.\<close>

lemma holds_product_up: "d \<in> set (elems a) \<Longrightarrow> holds_product d \<Longrightarrow> holds_product a"
proof -
  assume d: "d \<in> set (elems a)" and k: "holds_product d"
  from elems_split[OF d] show "holds_product a"
  proof
    assume "d = a" with k show ?thesis by simp
  next
    assume da: "d \<in> set (descendants a)"
    from k consider "is_product_element d" | "list_ex is_product_element (descendants d)"
      by (auto simp: holds_product_def)
    then show ?thesis
    proof cases
      case 1
      with da show ?thesis by (auto simp: holds_product_def list_ex_iff)
    next
      case 2
      then obtain x where x: "x \<in> set (descendants d)" "is_product_element x"
        by (auto simp: list_ex_iff)
      with descendants_subset[of d] have "x \<in> set (elems d)" by auto
      from descendants_elems[OF da this] x(2) show ?thesis
        by (auto simp: holds_product_def list_ex_iff)
    qed
  qed
qed

lemma not_listed:
  "length (get_text_strip e) > 100 \<or> is_product_element e
     \<or> list_ex is_product_element (descendants e) \<Longrightarrow> \<not> noise_to_remove e"
  by (auto simp: noise_to_remove_def Let_def)

lemma holds_product_not_listed: "holds_product e \<Longrightarrow> \<not> noise_to_remove e"
  by (auto simp: holds_product_def noise_to_remove_def Let_def)

lemma decompose_in_member:
  "c \<in> set ns \<Longrightarrow> \<not> (is_tag c \<and> doomed c) \<Longrightarrow> decompose_all doomed c \<in> set (decompose_in doomed ns)"
  by (induction ns) auto

lemma holds_product_survives:
  "e \<in> set (elems a) \<Longrightarrow> holds_product e \<Longrightarrow>
   decompose_all noise_to_remove e \<in> set (elems (decompose_all noise_to_remove a))"
proof (induction a arbitrary: e)
  case (Elem name classes attrs kids)
  show ?case
  proof (cases "e = Elem name classes attrs kids")
    case True
    then show ?thesis by simp
  next
    case False
    with Elem.prems obtain c where c: "c \<in> set kids" "e \<in> set (elems c)" by auto
    from holds_product_up[OF c(2) Elem.prems(2)] have "\<not> noise_to_remove c"
      by (rule holds_product_not_listed)
    with c(1) have "decompose_all noise_to_remove c \<in> set (decompose_in noise_to_remove kids)"
      by (simp add: decompose_in_member)
    moreover from Elem.IH[OF c Elem.prems(2)]
    have "decompose_all noise_to_remove e \<in> set (elems (decompose_all noise_to_remove c))" .
    ultimately show ?thesis by auto
  qed
qed simp_all

lemma holds_product_survives_soup:
  assumes "e \<in> set (find_all soup)" "holds_product e"
  shows "decompose_all noise_to_remove e \<in> set (find_all (decompose_in noise_to_remove soup))"
proof -
  from assms(1) obtain c where c: "c \<in> set soup" "e \<in> set (elems c)"
    by (auto simp: find_all_def)
  from holds_product_up[OF c(2) assms(2)] have "\<not> noise_to_remove c"
    by (rule holds_product_not_listed)
  with c(1) have "decompose_all noise_to_remove c \<in> set (decompose_in noise_to_remove soup)"
    by (simp add: decompose_in_member)
  with holds_product_survives[OF c(2) assms(2)] show ?thesis
    by (auto simp: find_all_def)
qed

lemma noise_to_remove_needs:
  assumes "noise_to_remove (Elem name classes attrs kids)"
  shows "(matches_pattern (py_join '' '' classes) NOISE_PATTERNS
        \<or> matches_pattern (get_id attrs) NOISE_PATTERNS
        \<or> list_ex (\<lambda>(attr, val). startswith attr ''data-'' \<and> matches_pattern val NOISE_PATTERNS) attrs)
    \<and> \<not> matches_pattern (py_join '' '' classes) PRODUCT_PATTERNS
    \<and> \<not> matches_pattern (get_id attrs) PRODUCT_PATTERNS
    \<and> length (get_text_strip (Elem name classes attrs kids)) \<le> 100
    \<and> \<not> list_ex is_product_element (descendants (Elem name classes attrs kids))"
proof -
  from assms have n: "is_noise_element (Elem name classes attrs kids)"
    and t: "\<not> length (get_text_strip (Elem name classes attrs kids)) > 100"
    and p: "\<not> is_product_element (Elem name classes attrs kids)"
    and c: "\<not> list_ex is_product_element (descendants (Elem name classes attrs kids))"
    by (auto simp: noise_to_remove_def Let_def split: if_splits)
  from n have "matches_pattern (py_join '' '' classes) NOISE_PATTERNS
        \<or> matches_pattern (get_id attrs) NOISE_PATTERNS
        \<or> list_ex (\<lambda>(attr, val). startswith attr ''data-'' \<and> matches_pattern val NOISE_PATTERNS) attrs"
    by (auto simp: Let_def simp del: set_simps split: if_splits)
  moreover from p have "\<not> matches_pattern (py_join '' '' classes) PRODUCT_PATTERNS"
    "\<not> matches_pattern (get_id attrs) PRODUCT_PATTERNS"
    by auto
  ultimately show ?thesis using t c by simp
qed

text \<open>
  Claim C6, as amended. An element is put on the list \<open>elements_to_remove\<close> only if its
  class string, its id or the value of one of its \<open>data-\<close> attributes matches the NOISE
  patterns, neither its class string nor its id matches the PRODUCT patterns (the
  \<open>data-\<close> attributes are not looked at for PRODUCT), its own text has at most 100
  characters and no element below it matches PRODUCT by class or id. So an element
  whose own text is longer than 100 characters, or which is a product element or has
  one below it, is not put on the list. An element of the page that is a product
  element or has one below it is still in the page after the noise step.
\<close>

theorem noise_removal_rule:
  "(noise_to_remove (Elem name classes attrs kids) \<longrightarrow>
      (matches_pattern (py_join '' '' classes) NOISE_PATTERNS
          \<or> matches_pattern (get_id attrs) NOISE_PATTERNS
          \<or> list_ex (\<lambda>(attr, val). startswith attr ''data-'' \<and> matches_pattern val NOISE_PATTERNS) attrs)
      \<and> \<not> matches_pattern (py_join '' '' classes) PRODUCT_PATTERNS
      \<and> \<not> matches_pattern (get_id attrs) PRODUCT_PATTERNS
      \<and> length (get_text_strip (Elem name classes attrs kids)) \<le> 100
      \<and> \<not> list_ex is_product_element (descendants (Elem name classes attrs kids)))
   \<and> (length (get_text_strip e) > 100 \<or> is_product_element e
         \<or> list_ex is_product_element (descendants e) \<longrightarrow> \<not> noise_to_remove e)
   \<and> (e \<in> set (find_all soup) \<and> holds_product e \<longrightarrow>
        decompose_all noise_to_remove e \<in> set (find_all (decompose_in noise_to_remove soup)))"
  using noise_to_remove_needs [of name classes attrs kids] not_listed [of e]
    holds_product_survives_soup [of e soup]
  by blast

text \<open>
  Against claim C6 as stated. The data attribute of the first element matches NOISE and
  PRODUCT alike; the element counts as noise and is removed. The template has a noise
  class and 101 characters of text of its own; that text does not count for the box
  around it, and the template is removed with the box.
\<close>

theorem noise_eligibility_counterexample:
  "is_noise_element rated_price_box
   \<and> matches_pattern ''review-price'' PRODUCT_PATTERNS
   \<and> noise_to_remove rated_price_box
   \<and> decompose_in noise_to_remove [rated_price_box] = []
   \<and> is_noise_element long_template
   \<and> length (get_text_strip long_template) = 101
   \<and> long_template \<in> set (descendants related_with_template)
   \<and> decompose_in noise_to_remove [related_with_template] = []"
  by code_simp

theorem noise_removal_rule_witness:
  "noise_to_remove (Elem ''div'' [''related-items''] [] [Text PlainText ''More like this''])
   \<and> matches_pattern (py_join '' '' [''related-items'']) NOISE_PATTERNS
   \<and> length (get_text_strip long_template) > 100
   \<and> noise_to_remove long_template = False
   \<and> review_with_specs \<in> set (find_all [review_with_specs])
   \<and> holds_product review_with_specs
   \<and> is_noise_element review_with_specs
   \<and> decompose_all noise_to_remove review_with_specs
        \<in> set (find_all (decompose_in noise_to_remove [review_with_specs]))"
proof -
  have a: "noise_to_remove (Elem ''div'' [''related-items''] [] [Text PlainText ''More like this''])"
    by code_simp
  have b: "review_with_specs \<in> set (find_all [review_with_specs])"
    by (simp add: review_with_specs_def find_all_def)
  have c: "holds_product review_with_specs"
    by code_simp
  have d: "is_noise_element review_with_specs"
    by code_simp
  have e: "matches_pattern (py_join '' '' [''related-items'']) NOISE_PATTERNS"
    by code_simp
  have f: "length (get_text_strip long_template) > 100"
    by code_simp
  note r1 = noise_removal_rule [of "''div''" "[''related-items'']" "[]" "[Text PlainText ''More like this'']"
        review_with_specs "[review_with_specs]"]
  note r2 = noise_removal_rule [of "''div''" "[''related-items'']" "[]" "[Text PlainText ''More like this'']"
        long_template "[review_with_specs]"]
  from r2 f have g: "noise_to_remove long_template = False"
    by blast
  from r1 b c have h: "decompose_all noise_to_remove review_with_specs
        \<in> set (find_all (decompose_in noise_to_remove [review_with_specs]))"
    by blast
  from a b c d e f g h show ?thesis by blast
qed

end
